theory Spec2Isabelle
  imports Complex_Main "HOL-Library.Sublist" "HOL-Library.AList"
begin

section \<open>Python values, strings and exceptions\<close>

text \<open>
  A shallow embedding of \<^verbatim>\<open>src/smpl-processor/smpl_processor.py\<close> (class
  \<^verbatim>\<open>SMPLProcessor\<close>).  Python exceptions are values of type \<open>exn\<close> (the
  exception's class name and its message); a call that may raise returns \<open>exn + 'a\<close>
  with \<open>Inl\<close> for the raise.  Strings are byte strings.  Calls to \<^verbatim>\<open>logger\<close>
  change neither the control flow nor any state read by the program and are left out.
  Where the source file has a backslash and the letter n between two statements (lines
  103, 117, 427 and 483) they are read as the line break they stand for.
\<close>

datatype exn = Exn (exn_type: string) (exn_msg: string)

text \<open>\<^verbatim>\<open>except Exception\<close> catches an exception unless its class derives from
  \<^verbatim>\<open>BaseException\<close> alone: \<^verbatim>\<open>SystemExit\<close>, which \<^verbatim>\<open>signal_handler\<close>
  (lines 570 to 573) raises through \<^verbatim>\<open>sys.exit\<close> when a shutdown signal arrives,
  \<^verbatim>\<open>KeyboardInterrupt\<close> and \<^verbatim>\<open>GeneratorExit\<close>.\<close>

definition catchable :: "exn \<Rightarrow> bool" where
  "catchable e = (exn_type e \<notin> set [''SystemExit'', ''KeyboardInterrupt'', ''GeneratorExit''])"

text \<open>The values a \<^verbatim>\<open>Dict[str, Any]\<close> of the source holds.  A dict is an
  association list in insertion order.\<close>

datatype pyval =
    PNone
  | PBool bool
  | PInt int
  | PFloat real
  | PStr string
  | PList "pyval list"
  | PDict "(string \<times> pyval) list"

text \<open>\<^verbatim>\<open>d.get(k, default)\<close>.\<close>

definition dict_get :: "(string \<times> 'v) list \<Rightarrow> string \<Rightarrow> 'v \<Rightarrow> 'v" where
  "dict_get d k dflt = (case map_of d k of None \<Rightarrow> dflt | Some v \<Rightarrow> v)"

text \<open>\<^verbatim>\<open>d[k] = v\<close>: an existing key keeps its place, a new key goes last.\<close>

definition dict_set :: "(string \<times> 'v) list \<Rightarrow> string \<Rightarrow> 'v \<Rightarrow> (string \<times> 'v) list" where
  "dict_set d k v = AList.update k v d"

text \<open>\<^verbatim>\<open>str(n)\<close> of an integer: its decimal digits, with a sign when negative.\<close>

definition digit_char :: "nat \<Rightarrow> char" where
  "digit_char d = ''0123456789'' ! d"

fun digits :: "nat \<Rightarrow> string" where
  "digits n = (if n < 10 then [digit_char n] else digits (n div 10) @ [digit_char (n mod 10)])"

declare digits.simps [simp del]

definition show_int :: "int \<Rightarrow> string" where
  "show_int i = (if i < 0 then CHR ''-'' # digits (nat (- i)) else digits (nat i))"

text \<open>\<^verbatim>\<open>int(x)\<close> of a float: truncation towards zero.\<close>

definition py_int :: "real \<Rightarrow> int" where
  "py_int r = (if 0 \<le> r then \<lfloor>r\<rfloor> else \<lceil>r\<rceil>)"

text \<open>\<^verbatim>\<open>s.split(sep)\<close> for a one-character separator; the result is never empty,
  so \<^verbatim>\<open>s.split(sep)[-1]\<close> is its last element.\<close>

fun py_split :: "char \<Rightarrow> string \<Rightarrow> string list" where
  "py_split sep [] = [[]]"
| "py_split sep (c # cs) =
     (if c = sep then [] # py_split sep cs
      else (case py_split sep cs of [] \<Rightarrow> [[c]] | p # ps \<Rightarrow> (c # p) # ps))"

definition split_last :: "char \<Rightarrow> string \<Rightarrow> string" where
  "split_last sep s = last (py_split sep s)"

text \<open>\<^verbatim>\<open>s.lower()\<close> on ASCII letters.\<close>

definition lower_char :: "char \<Rightarrow> char" where
  "lower_char c =
     (case map_of (zip ''ABCDEFGHIJKLMNOPQRSTUVWXYZ'' ''abcdefghijklmnopqrstuvwxyz'') c of
        Some l \<Rightarrow> l | None \<Rightarrow> c)"

definition py_lower :: "string \<Rightarrow> string" where
  "py_lower s = map lower_char s"

text \<open>\<^verbatim>\<open>sub in s\<close> on strings.\<close>

fun py_in :: "string \<Rightarrow> string \<Rightarrow> bool" where
  "py_in sub [] = (sub = [])"
| "py_in sub (c # cs) = (prefix sub (c # cs) \<or> py_in sub cs)"

text \<open>\<^verbatim>\<open>os.path.dirname\<close> (posixpath): the part up to the last slash, without
  its trailing slashes unless it consists of slashes only.\<close>

definition dirname :: "string \<Rightarrow> string" where
  "dirname p =
     (let head = rev (dropWhile (\<lambda>c. c \<noteq> CHR ''/'') (rev p))
      in if head \<noteq> [] \<and> \<not> list_all (\<lambda>c. c = CHR ''/'') head
         then rev (dropWhile (\<lambda>c. c = CHR ''/'') (rev head)) else head)"

section \<open>Configuration, environment and processor state\<close>

text \<open>The configuration \<^verbatim>\<open>_load_config\<close> reads from the process environment.\<close>

record config =
  bucket_uploads :: string
  bucket_guidance :: string
  bucket_smpl_assets :: string
  event_bus_name :: string
  max_image_size_mb :: int
  model_path_smpl :: string

text \<open>An EventBridge entry and a CloudWatch datum, as the source builds them.\<close>

record event =
  ev_source :: string
  ev_detail_type :: string
  ev_detail :: string
  ev_bus :: string

record metric =
  m_name :: string
  m_value :: real
  m_unit :: string
  m_dimensions :: "(string \<times> string) list"
  m_timestamp :: real

text \<open>The places where the source reads the clock (\<^verbatim>\<open>time.time()\<close>,
  \<^verbatim>\<open>datetime.utcnow()\<close>); the upload loop reads it once per asset kind and
  \<^verbatim>\<open>_send_metrics\<close> once per metric name.\<close>

datatype clock_site =
    AtStart
  | AtUpload string
  | AtEnd
  | AtActivity
  | AtCompletionEvent
  | AtErrorEvent
  | AtMetric string
  | AtHealth

text \<open>
  Everything outside the program: the outcome of every call to the operating system, the
  image libraries, the object store, the event bus and the metrics sink, the clock
  readings, the random arrays, and Python's renderings of floats, timestamps and JSON.
  A call may raise any exception; a shutdown signal that arrives during a call makes that
  call raise \<^verbatim>\<open>SystemExit\<close>.  A theorem stated for every \<open>env\<close> holds whatever
  these collaborators do.
\<close>

record env =
  time_at :: "clock_site \<Rightarrow> real"
  os_makedirs :: "string \<Rightarrow> exn option"
  s3_download :: "string \<Rightarrow> string \<Rightarrow> string \<Rightarrow> exn option"
  os_getsize :: "string \<Rightarrow> exn + nat"
  image_open :: "string \<Rightarrow> exn + (string \<times> nat \<times> nat)"
  cv2_imread :: "string \<Rightarrow> (nat \<times> nat) option"
  cv2_imwrite :: "string \<Rightarrow> exn + bool"
  write_text :: "string \<Rightarrow> string \<Rightarrow> exn option"
  s3_upload :: "string \<Rightarrow> string \<Rightarrow> string \<Rightarrow> string \<Rightarrow> exn option"
  put_events :: "event \<Rightarrow> exn + nat"
  put_metric_data :: "metric \<Rightarrow> exn option"
  shutil_rmtree :: "string \<Rightarrow> exn option"
  randn :: "nat list \<Rightarrow> pyval"
  py_repr :: "pyval \<Rightarrow> string"
  fmt_2f :: "real \<Rightarrow> string"
  isoformat :: "real \<Rightarrow> string"
  json_dumps :: "pyval \<Rightarrow> string"
  mem_percent :: real
  cpu_percent :: real

text \<open>\<^verbatim>\<open>self.stats\<close>.\<close>

record stats =
  processed_count :: int
  error_count :: int
  start_time :: real
  last_activity :: real

text \<open>
  The mutable state: the processor's own fields (\<open>stats\<close>, \<open>smpl_models\<close>) and what
  its calls change outside: the paths that exist on the local file system, every
  \<^verbatim>\<open>download_file\<close> call made (bucket, key, local path), the objects put into the
  guidance bucket, every \<^verbatim>\<open>put_events\<close> call with its outcome
  (\<open>Inr n\<close> is a response with \<^verbatim>\<open>FailedEntryCount\<close> \<open>n\<close>), and the metrics
  the sink accepted.
\<close>

record world =
  stats :: stats
  smpl_models :: "(string \<times> string) list"
  fs :: "string list"
  s3_get_calls :: "(string \<times> string \<times> string) list"
  s3_objects :: "(string \<times> string) list"
  bus_calls :: "(event \<times> (exn + nat)) list"
  cloudwatch :: "metric list"

text \<open>A computation on the state that may raise, and its sequencing: a raise skips the
  rest, keeping the state reached.\<close>

type_synonym 'a prog = "world \<Rightarrow> (exn + 'a) \<times> world"

definition ret :: "'a \<Rightarrow> 'a prog" where
  "ret x = (\<lambda>w. (Inr x, w))"

definition raise :: "exn \<Rightarrow> 'a prog" where
  "raise e = (\<lambda>w. (Inl e, w))"

definition bind :: "'a prog \<Rightarrow> ('a \<Rightarrow> 'b prog) \<Rightarrow> 'b prog" where
  "bind m f = (\<lambda>w. case m w of (Inl e, w') \<Rightarrow> (Inl e, w') | (Inr a, w') \<Rightarrow> f a w')"

text \<open>\<^verbatim>\<open>str(x)\<close> as an f-string renders it: a string as it is, an integer in
  decimal, anything else by Python's \<^verbatim>\<open>repr\<close>.\<close>

definition py_str :: "env \<Rightarrow> pyval \<Rightarrow> string" where
  "py_str en v = (case v of PStr s \<Rightarrow> s | PInt i \<Rightarrow> show_int i | _ \<Rightarrow> py_repr en v)"

section \<open>Primitive operations on the state\<close>

definition lift :: "exn + 'a \<Rightarrow> 'a prog" where
  "lift r = (\<lambda>w. (r, w))"

text \<open>\<^verbatim>\<open>try: body except Exception as e: handler(e)\<close>, which lets an exception
  that is not an \<^verbatim>\<open>Exception\<close> pass, and \<^verbatim>\<open>try: body finally: fin\<close>.  An
  exception raised by \<open>fin\<close> replaces the outcome of \<open>body\<close>.\<close>

definition try_except :: "'a prog \<Rightarrow> (exn \<Rightarrow> 'a prog) \<Rightarrow> 'a prog" where
  "try_except body handler =
     (\<lambda>w. case body w of
        (Inl e, w') \<Rightarrow> if catchable e then handler e w' else (Inl e, w')
      | (Inr a, w') \<Rightarrow> (Inr a, w'))"

definition try_finally :: "'a prog \<Rightarrow> unit prog \<Rightarrow> 'a prog" where
  "try_finally body fin =
     (\<lambda>w. case body w of
        (r, w') \<Rightarrow> (case fin w' of (Inl e, w'') \<Rightarrow> (Inl e, w'') | (Inr u, w'') \<Rightarrow> (r, w'')))"

text \<open>\<^verbatim>\<open>os.path.exists\<close>, \<^verbatim>\<open>os.makedirs(p, exist_ok=True)\<close>,
  \<^verbatim>\<open>s3_client.download_file\<close>, \<^verbatim>\<open>cv2.imwrite\<close> (its boolean result is
  whether the file was written), \<^verbatim>\<open>open(p, 'w').write(text)\<close>,
  \<^verbatim>\<open>s3_client.upload_file\<close> and \<^verbatim>\<open>shutil.rmtree\<close>: the environment decides
  the outcome, a call that succeeds changes the state.\<close>

definition path_exists :: "string \<Rightarrow> world \<Rightarrow> bool" where
  "path_exists p w = (p \<in> set (fs w))"

definition add_path :: "string \<Rightarrow> world \<Rightarrow> world" where
  "add_path p w = (if p \<in> set (fs w) then w else w\<lparr>fs := fs w @ [p]\<rparr>)"

definition makedirs :: "env \<Rightarrow> string \<Rightarrow> unit prog" where
  "makedirs en p =
     (\<lambda>w. case os_makedirs en p of Some e \<Rightarrow> (Inl e, w) | None \<Rightarrow> (Inr (), add_path p w))"

definition download_file :: "env \<Rightarrow> string \<Rightarrow> string \<Rightarrow> string \<Rightarrow> unit prog" where
  "download_file en bucket key local_path =
     (\<lambda>w. let w' = w\<lparr>s3_get_calls := s3_get_calls w @ [(bucket, key, local_path)]\<rparr>
          in case s3_download en bucket key local_path of
               Some e \<Rightarrow> (Inl e, w') | None \<Rightarrow> (Inr (), add_path local_path w'))"

definition imwrite :: "env \<Rightarrow> string \<Rightarrow> unit prog" where
  "imwrite en p =
     (\<lambda>w. case cv2_imwrite en p of
        Inl e \<Rightarrow> (Inl e, w)
      | Inr written \<Rightarrow> (Inr (), if written then add_path p w else w))"

definition write_file :: "env \<Rightarrow> string \<Rightarrow> string \<Rightarrow> unit prog" where
  "write_file en p text =
     (\<lambda>w. case write_text en p text of Some e \<Rightarrow> (Inl e, w) | None \<Rightarrow> (Inr (), add_path p w))"

definition upload_file :: "env \<Rightarrow> string \<Rightarrow> string \<Rightarrow> string \<Rightarrow> string \<Rightarrow> unit prog" where
  "upload_file en local_path bucket key content_type =
     (\<lambda>w. case s3_upload en local_path bucket key content_type of
        Some e \<Rightarrow> (Inl e, w)
      | None \<Rightarrow> (Inr (), w\<lparr>s3_objects := s3_objects w @ [(bucket, key)]\<rparr>))"

text \<open>\<^verbatim>\<open>shutil.rmtree(d)\<close> removes \<open>d\<close> and every path below it.\<close>

definition below :: "string \<Rightarrow> string \<Rightarrow> bool" where
  "below d p = (p = d \<or> prefix (d @ ''/'') p)"

definition rmtree :: "env \<Rightarrow> string \<Rightarrow> unit prog" where
  "rmtree en d =
     (\<lambda>w. case shutil_rmtree en d of
        Some e \<Rightarrow> (Inl e, w)
      | None \<Rightarrow> (Inr (), w\<lparr>fs := filter (\<lambda>p. \<not> below d p) (fs w)\<rparr>))"

text \<open>\<^verbatim>\<open>events_client.put_events(Entries=[event])\<close>: the call is recorded with its
  outcome; it returns the response's \<^verbatim>\<open>FailedEntryCount\<close>.\<close>

definition put_events_call :: "env \<Rightarrow> event \<Rightarrow> nat prog" where
  "put_events_call en ev = (\<lambda>w. (put_events en ev, w\<lparr>bus_calls := bus_calls w @ [(ev, put_events en ev)]\<rparr>))"

section \<open>The processor\<close>

text \<open>
  The wrappers \<^verbatim>\<open>try: ... except Exception as e: logger.error(...); raise\<close> around
  the bodies of the stage methods re-raise what they caught and are the identity here.
\<close>

subsection \<open>\<^verbatim>\<open>_load_smpl_models\<close>\<close>

definition model_files :: "string list" where
  "model_files =
     [''basicModel_f_lbs_10_207_0_v1.0.0.pkl'',
      ''basicModel_m_lbs_10_207_0_v1.0.0.pkl'',
      ''basicModel_neutral_lbs_10_207_0_v1.0.0.pkl'']"

text \<open>The \<^verbatim>\<open>for model_file in model_files\<close> loop.\<close>

fun fetch_model_files :: "env \<Rightarrow> config \<Rightarrow> string list \<Rightarrow> unit prog" where
  "fetch_model_files en cfg [] = ret ()"
| "fetch_model_files en cfg (model_file # rest) =
     (let s3_key = ''models/'' @ model_file;
          local_path = model_path_smpl cfg @ ''/'' @ model_file
      in (\<lambda>w. if \<not> path_exists local_path w
               then bind (makedirs en (dirname local_path)) (\<lambda>u.
                    bind (download_file en (bucket_smpl_assets cfg) s3_key local_path) (\<lambda>u.
                    fetch_model_files en cfg rest)) w
               else fetch_model_files en cfg rest w))"

definition load_smpl_models :: "env \<Rightarrow> config \<Rightarrow> unit prog" where
  "load_smpl_models en cfg =
     (\<lambda>w. if smpl_models w \<noteq> [] then (Inr (), w)
          else bind (fetch_model_files en cfg model_files) (\<lambda>u w'.
                 (Inr (), w'\<lparr>smpl_models :=
                    [(''female'', model_path_smpl cfg @ ''/basicModel_f_lbs_10_207_0_v1.0.0.pkl''),
                     (''male'', model_path_smpl cfg @ ''/basicModel_m_lbs_10_207_0_v1.0.0.pkl''),
                     (''neutral'', model_path_smpl cfg @ ''/basicModel_neutral_lbs_10_207_0_v1.0.0.pkl'')]\<rparr>)) w)"

subsection \<open>\<^verbatim>\<open>_validate_image\<close> and \<^verbatim>\<open>_download_input_images\<close>\<close>

definition validate_image :: "env \<Rightarrow> config \<Rightarrow> string \<Rightarrow> string \<Rightarrow> exn + unit" where
  "validate_image en cfg image_path image_type =
     (case os_getsize en image_path of
        Inl e \<Rightarrow> Inl e
      | Inr size_bytes \<Rightarrow>
          (let file_size_mb = real size_bytes / (1024 * 1024)
           in if file_size_mb > real_of_int (max_image_size_mb cfg)
              then Inl (Exn ''ValueError''
                     (image_type @ '' image too large: '' @ fmt_2f en file_size_mb @ ''MB > ''
                        @ show_int (max_image_size_mb cfg) @ ''MB''))
              else (case image_open en image_path of
                      Inl e \<Rightarrow> Inl e
                    | Inr (format, width, height) \<Rightarrow>
                        if format \<notin> set [''JPEG'', ''PNG'', ''WEBP'']
                        then Inl (Exn ''ValueError''
                               (''Unsupported '' @ image_type @ '' image format: '' @ format))
                        else if width < 256 \<or> height < 256
                        then Inl (Exn ''ValueError''
                               (image_type @ '' image too small: '' @ show_int (int width) @ ''x''
                                  @ show_int (int height) @ '' < 256x256''))
                        else Inr ())))"

definition download_input_images ::
  "env \<Rightarrow> config \<Rightarrow> string \<Rightarrow> string \<Rightarrow> string \<Rightarrow> string \<Rightarrow> (string \<times> string) prog" where
  "download_input_images en cfg session_id avatar_key garment_key temp_dir =
     (let avatar_path = temp_dir @ ''/avatar.jpg'';
          garment_path = temp_dir @ ''/garment.jpg''
      in bind (download_file en (bucket_uploads cfg) avatar_key avatar_path) (\<lambda>u.
         bind (download_file en (bucket_uploads cfg) garment_key garment_path) (\<lambda>u.
         bind (lift (validate_image en cfg avatar_path ''avatar'')) (\<lambda>u.
         bind (lift (validate_image en cfg garment_path ''garment'')) (\<lambda>u.
         ret (avatar_path, garment_path))))))"

subsection \<open>\<^verbatim>\<open>_estimate_pose_romp\<close> and \<^verbatim>\<open>_fit_body_mesh\<close>\<close>

text \<open>\<^verbatim>\<open>cv2.imread\<close> returns \<^verbatim>\<open>None\<close> for a file it cannot read, and
  \<^verbatim>\<open>img.shape\<close> raises on it.\<close>

definition none_shape :: exn where
  "none_shape = Exn ''AttributeError'' ''NoneType object has no attribute shape''"

definition estimate_pose_romp :: "env \<Rightarrow> string \<Rightarrow> string \<Rightarrow> exn + (string \<times> pyval) list" where
  "estimate_pose_romp en image_path temp_dir =
     (case cv2_imread en image_path of
        None \<Rightarrow> Inl none_shape
      | Some (height, width) \<Rightarrow>
          Inr [(''poses_3d'', randn en [1, 24, 3]),
               (''poses_2d'', randn en [1, 17, 2]),
               (''confidence'', PFloat 0.85),
               (''bbox'', PList [PFloat (real width * 0.25), PFloat (real height * 0.1),
                                 PFloat (real width * 0.5), PFloat (real height * 0.8)]),
               (''person_detected'', PBool True)])"

definition fit_body_mesh ::
  "env \<Rightarrow> config \<Rightarrow> string \<Rightarrow> (string \<times> pyval) list \<Rightarrow> string \<Rightarrow> (string \<times> pyval) list prog" where
  "fit_body_mesh en cfg image_path pose_results temp_dir =
     bind (load_smpl_models en cfg) (\<lambda>u.
     ret [(''body_shape'', randn en [10]),
          (''body_pose'', randn en [72]),
          (''global_orient'', randn en [3]),
          (''translation'', PList [PFloat 0, PFloat 0, PFloat 2]),
          (''gender'', PStr ''neutral''),
          (''fit_confidence'', PFloat 0.78),
          (''mesh_vertices'', PInt 6890),
          (''estimated_measurements'',
             PDict [(''height_cm'', PFloat 170), (''chest_cm'', PFloat 88),
                    (''waist_cm'', PFloat 72), (''hip_cm'', PFloat 95)])])"

subsection \<open>\<^verbatim>\<open>_generate_text_prompt\<close> and \<^verbatim>\<open>_generate_guidance_assets\<close>\<close>

text \<open>\<^verbatim>\<open>measurements.get\<close> raises when the value stored under
  \<^verbatim>\<open>estimated_measurements\<close> is not a dict.\<close>

definition no_get :: exn where
  "no_get = Exn ''AttributeError'' ''object has no attribute get''"

definition generate_text_prompt :: "env \<Rightarrow> (string \<times> pyval) list \<Rightarrow> string \<Rightarrow> exn + string" where
  "generate_text_prompt en mesh_results garment_path =
     (let measurements = dict_get mesh_results ''estimated_measurements'' (PDict []);
          gender = dict_get mesh_results ''gender'' (PStr ''neutral'')
      in case measurements of
           PDict ms \<Rightarrow>
             Inr (''A '' @ py_str en gender @ '' person with height ''
                    @ py_str en (dict_get ms ''height_cm'' (PInt 170)) @ ''cm, ''
                    @ ''wearing fashionable clothing, standing pose, ''
                    @ ''professional photography, high quality, detailed textures, ''
                    @ ''natural lighting, realistic proportions'')
         | _ \<Rightarrow> Inl no_get)"

definition generate_guidance_assets ::
  "env \<Rightarrow> string \<Rightarrow> string \<Rightarrow> (string \<times> pyval) list \<Rightarrow> (string \<times> pyval) list \<Rightarrow> string
     \<Rightarrow> (string \<times> string) list prog" where
  "generate_guidance_assets en avatar_path garment_path pose_results mesh_results temp_dir =
     (case cv2_imread en avatar_path of
        None \<Rightarrow> raise none_shape
      | Some (height, width) \<Rightarrow>
         (let guidance_assets = [];
              depth_path = temp_dir @ ''/depth.png''
          in bind (imwrite en depth_path) (\<lambda>u.
         (let guidance_assets = dict_set guidance_assets ''depth'' depth_path;
              normal_path = temp_dir @ ''/normals.png''
          in bind (imwrite en normal_path) (\<lambda>u.
         (let guidance_assets = dict_set guidance_assets ''normals'' normal_path;
              pose_path = temp_dir @ ''/pose.png''
          in bind (imwrite en pose_path) (\<lambda>u.
         (let guidance_assets = dict_set guidance_assets ''pose'' pose_path;
              seg_path = temp_dir @ ''/segments.png''
          in bind (imwrite en seg_path) (\<lambda>u.
         (let guidance_assets = dict_set guidance_assets ''segments'' seg_path
          in bind (lift (generate_text_prompt en mesh_results garment_path)) (\<lambda>prompt.
         (let prompt_path = temp_dir @ ''/prompt.txt''
          in bind (write_file en prompt_path prompt) (\<lambda>u.
         (let guidance_assets = dict_set guidance_assets ''prompt'' prompt_path
          in ret guidance_assets))))))))))))))"

subsection \<open>\<^verbatim>\<open>_get_content_type\<close> and \<^verbatim>\<open>_upload_guidance_assets\<close>\<close>

definition get_content_type :: "string \<Rightarrow> string" where
  "get_content_type file_path =
     (let ext = split_last (CHR ''.'') (py_lower file_path)
      in dict_get [(''png'', ''image/png''), (''jpg'', ''image/jpeg''),
                   (''jpeg'', ''image/jpeg''), (''txt'', ''text/plain'')]
           ext ''application/octet-stream'')"

text \<open>The key built at line 432:
  \<^verbatim>\<open>f'{asset_type}/{session_id}-{timestamp}.{local_path.split(".")[-1]}'\<close>.\<close>

definition s3_key_of :: "string \<Rightarrow> string \<Rightarrow> int \<Rightarrow> string \<Rightarrow> string" where
  "s3_key_of asset_type session_id timestamp local_path =
     asset_type @ ''/'' @ session_id @ ''-'' @ show_int timestamp @ ''.''
       @ split_last (CHR ''.'') local_path"

text \<open>The loop over \<^verbatim>\<open>guidance_assets.items()\<close>, with \<^verbatim>\<open>s3_keys\<close> as the
  accumulator.\<close>

fun upload_items ::
  "env \<Rightarrow> config \<Rightarrow> string \<Rightarrow> (string \<times> string) list \<Rightarrow> (string \<times> string) list
     \<Rightarrow> (string \<times> string) list prog" where
  "upload_items en cfg session_id [] s3_keys = ret s3_keys"
| "upload_items en cfg session_id ((asset_type, local_path) # rest) s3_keys =
     (let timestamp = py_int (time_at en (AtUpload asset_type));
          s3_key = s3_key_of asset_type session_id timestamp local_path
      in bind (upload_file en local_path (bucket_guidance cfg) s3_key (get_content_type local_path))
           (\<lambda>u. upload_items en cfg session_id rest (dict_set s3_keys asset_type s3_key)))"

definition upload_guidance_assets ::
  "env \<Rightarrow> config \<Rightarrow> string \<Rightarrow> (string \<times> string) list \<Rightarrow> string \<Rightarrow> (string \<times> string) list prog" where
  "upload_guidance_assets en cfg session_id guidance_assets temp_dir =
     upload_items en cfg session_id guidance_assets []"

subsection \<open>Events, metrics and cleanup\<close>

definition completion_event ::
  "env \<Rightarrow> config \<Rightarrow> string \<Rightarrow> string \<Rightarrow> (string \<times> string) list \<Rightarrow> (string \<times> pyval) list \<Rightarrow> event" where
  "completion_event en cfg session_id user_id s3_keys mesh_results =
     \<lparr>ev_source = ''garmax-ai.smpl'',
      ev_detail_type = ''Guidance Assets Ready'',
      ev_detail = json_dumps en (PDict
        [(''sessionId'', PStr session_id),
         (''userId'', PStr user_id),
         (''guidanceAssets'', PDict
            [(''depthMapKey'', PStr (dict_get s3_keys ''depth'' [])),
             (''normalMapKey'', PStr (dict_get s3_keys ''normals'' [])),
             (''poseMapKey'', PStr (dict_get s3_keys ''pose'' [])),
             (''segmentationKey'', PStr (dict_get s3_keys ''segments'' [])),
             (''promptKey'', PStr (dict_get s3_keys ''prompt'' []))]),
         (''smplMetadata'', PDict
            [(''poseConfidence'', dict_get mesh_results ''fit_confidence'' (PFloat 0)),
             (''bodyShape'', dict_get mesh_results ''body_shape'' (PList [])),
             (''estimatedMeasurements'', dict_get mesh_results ''estimated_measurements'' (PDict [])),
             (''gender'', dict_get mesh_results ''gender'' (PStr ''neutral''))]),
         (''timestamp'', PStr (isoformat en (time_at en AtCompletionEvent))),
         (''processingStage'', PStr ''smpl-complete'')]),
      ev_bus = event_bus_name cfg\<rparr>"

definition publish_completion_event ::
  "env \<Rightarrow> config \<Rightarrow> string \<Rightarrow> string \<Rightarrow> (string \<times> string) list \<Rightarrow> (string \<times> pyval) list \<Rightarrow> unit prog" where
  "publish_completion_event en cfg session_id user_id s3_keys mesh_results =
     bind (put_events_call en (completion_event en cfg session_id user_id s3_keys mesh_results))
       (\<lambda>failed_entry_count.
          if failed_entry_count > 0 then raise (Exn ''Exception'' ''EventBridge publish failed'')
          else ret ())"

definition error_event :: "env \<Rightarrow> config \<Rightarrow> string \<Rightarrow> string \<Rightarrow> string \<Rightarrow> event" where
  "error_event en cfg session_id user_id error_message =
     \<lparr>ev_source = ''garmax-ai.smpl'',
      ev_detail_type = ''SMPL Processing Failed'',
      ev_detail = json_dumps en (PDict
        [(''sessionId'', PStr session_id),
         (''userId'', PStr user_id),
         (''error'', PStr error_message),
         (''timestamp'', PStr (isoformat en (time_at en AtErrorEvent))),
         (''processingStage'', PStr ''smpl-error'')]),
      ev_bus = event_bus_name cfg\<rparr>"

text \<open>The response of \<^verbatim>\<open>put_events\<close> is not inspected here.\<close>

definition publish_error_event :: "env \<Rightarrow> config \<Rightarrow> string \<Rightarrow> string \<Rightarrow> string \<Rightarrow> unit prog" where
  "publish_error_event en cfg session_id user_id error_message =
     try_except
       (bind (put_events_call en (error_event en cfg session_id user_id error_message))
          (\<lambda>response. ret ()))
       (\<lambda>e. ret ())"

definition put_metric_call :: "env \<Rightarrow> metric \<Rightarrow> unit prog" where
  "put_metric_call en m =
     (\<lambda>w. case put_metric_data en m of
        Some e \<Rightarrow> (Inl e, w) | None \<Rightarrow> (Inr (), w\<lparr>cloudwatch := cloudwatch w @ [m]\<rparr>))"

definition send_metrics :: "env \<Rightarrow> string \<Rightarrow> real \<Rightarrow> (string \<times> string) list \<Rightarrow> unit prog" where
  "send_metrics en metric_name val dimensions =
     try_except
       (put_metric_call en
          \<lparr>m_name = metric_name,
           m_value = val,
           m_unit = (if py_in ''Count'' metric_name \<or> py_in ''Error'' metric_name
                     then ''Count'' else ''Seconds''),
           m_dimensions = dimensions,
           m_timestamp = time_at en (AtMetric metric_name)\<rparr>)
       (\<lambda>e. ret ())"

definition cleanup_temp_files :: "env \<Rightarrow> string \<Rightarrow> unit prog" where
  "cleanup_temp_files en temp_dir =
     try_except
       (\<lambda>w. if path_exists temp_dir w then rmtree en temp_dir w else (Inr (), w))
       (\<lambda>e. ret ())"

subsection \<open>\<^verbatim>\<open>process_image\<close>\<close>

record result =
  r_status :: string
  r_session_id :: string
  r_processing_time :: real
  r_guidance_assets :: "(string \<times> string) list"
  r_smpl_metadata :: "(string \<times> pyval) list"

definition modify :: "(world \<Rightarrow> world) \<Rightarrow> unit prog" where
  "modify f = (\<lambda>w. (Inr (), f w))"

text \<open>Lines 218 to 234: the end of the \<^verbatim>\<open>try\<close> block after the completion event
  (the statistics, the success metrics and the returned dict).\<close>

definition finish_success ::
  "env \<Rightarrow> string \<Rightarrow> real \<Rightarrow> (string \<times> string) list \<Rightarrow> (string \<times> pyval) list \<Rightarrow> result prog" where
  "finish_success en session_id t_start s3_keys mesh_results =
     (let processing_time = time_at en AtEnd - t_start
      in bind (modify (\<lambda>w. w\<lparr>stats := (stats w)\<lparr>processed_count := processed_count (stats w) + 1\<rparr>\<rparr>)) (\<lambda>u.
         bind (modify (\<lambda>w. w\<lparr>stats := (stats w)\<lparr>last_activity := time_at en AtActivity\<rparr>\<rparr>)) (\<lambda>u.
         bind (send_metrics en ''SMPL.ProcessingSuccess'' 1 [(''SessionId'', session_id)]) (\<lambda>u.
         bind (send_metrics en ''SMPL.ProcessingTime'' processing_time [(''SessionId'', session_id)]) (\<lambda>u.
         ret \<lparr>r_status = ''success'',
              r_session_id = session_id,
              r_processing_time = processing_time,
              r_guidance_assets = s3_keys,
              r_smpl_metadata = mesh_results\<rparr>)))))"

text \<open>Lines 204 to 234: the rest of the \<^verbatim>\<open>try\<close> block once \<^verbatim>\<open>pose_results\<close>
  is bound (steps 3 to 6, then the end of the block).\<close>

definition process_from_pose ::
  "env \<Rightarrow> config \<Rightarrow> string \<Rightarrow> string \<Rightarrow> real \<Rightarrow> string \<Rightarrow> string \<Rightarrow> string
     \<Rightarrow> (string \<times> pyval) list \<Rightarrow> result prog" where
  "process_from_pose en cfg session_id user_id t_start temp_dir avatar_path garment_path pose_results =
     bind (fit_body_mesh en cfg avatar_path pose_results temp_dir) (\<lambda>mesh_results.
     bind (generate_guidance_assets en avatar_path garment_path pose_results mesh_results temp_dir)
       (\<lambda>guidance_assets.
     bind (upload_guidance_assets en cfg session_id guidance_assets temp_dir) (\<lambda>s3_keys.
     bind (publish_completion_event en cfg session_id user_id s3_keys mesh_results) (\<lambda>u.
     finish_success en session_id t_start s3_keys mesh_results))))"

text \<open>The \<^verbatim>\<open>try\<close> block.\<close>

definition process_try ::
  "env \<Rightarrow> config \<Rightarrow> string \<Rightarrow> string \<Rightarrow> string \<Rightarrow> string \<Rightarrow> real \<Rightarrow> string \<Rightarrow> result prog" where
  "process_try en cfg session_id user_id avatar_image_key garment_image_key t_start temp_dir =
     bind (makedirs en temp_dir) (\<lambda>u.
     bind (download_input_images en cfg session_id avatar_image_key garment_image_key temp_dir)
       (\<lambda>(avatar_path, garment_path).
     bind (lift (estimate_pose_romp en avatar_path temp_dir)) (\<lambda>pose_results.
     process_from_pose en cfg session_id user_id t_start temp_dir avatar_path garment_path
       pose_results)))"

text \<open>The \<^verbatim>\<open>except Exception as e\<close> block.\<close>

definition process_except :: "env \<Rightarrow> config \<Rightarrow> string \<Rightarrow> string \<Rightarrow> exn \<Rightarrow> result prog" where
  "process_except en cfg session_id user_id e =
     bind (modify (\<lambda>w. w\<lparr>stats := (stats w)\<lparr>error_count := error_count (stats w) + 1\<rparr>\<rparr>)) (\<lambda>u.
     bind (send_metrics en ''SMPL.ProcessingError'' 1
             [(''SessionId'', session_id), (''ErrorType'', exn_type e)]) (\<lambda>u.
     bind (publish_error_event en cfg session_id user_id (exn_msg e)) (\<lambda>u.
     raise e)))"

definition process_image ::
  "env \<Rightarrow> config \<Rightarrow> string \<Rightarrow> string \<Rightarrow> string \<Rightarrow> string \<Rightarrow> result prog" where
  "process_image en cfg session_id user_id avatar_image_key garment_image_key =
     (let t_start = time_at en AtStart;
          temp_dir = ''/app/temp/'' @ session_id
      in try_finally
           (try_except
              (process_try en cfg session_id user_id avatar_image_key garment_image_key
                 t_start temp_dir)
              (process_except en cfg session_id user_id))
           (cleanup_temp_files en temp_dir))"

subsection \<open>\<^verbatim>\<open>get_health_status\<close>\<close>

text \<open>The method returns the snapshot; the state it leaves is returned beside it.\<close>

definition get_health_status :: "env \<Rightarrow> world \<Rightarrow> (string \<times> pyval) list \<times> world" where
  "get_health_status en w =
     ([(''status'', PStr ''healthy''),
       (''uptime_seconds'', PFloat (time_at en AtHealth - start_time (stats w))),
       (''processed_count'', PInt (processed_count (stats w))),
       (''error_count'', PInt (error_count (stats w))),
       (''memory_usage_percent'', PFloat (mem_percent en)),
       (''cpu_usage_percent'', PFloat (cpu_percent en)),
       (''last_activity'', PStr (isoformat en (last_activity (stats w)))),
       (''models_loaded'', PBool (smpl_models w \<noteq> []))], w)"

section \<open>Concrete configurations, environments and states\<close>

text \<open>The configuration \<^verbatim>\<open>_load_config\<close> builds when no variable is set, and the
  state \<^verbatim>\<open>__init__\<close> leaves when the clock reads \<open>t\<close>.\<close>

definition default_config :: config where
  "default_config =
     \<lparr>bucket_uploads = [], bucket_guidance = [], bucket_smpl_assets = [],
      event_bus_name = [], max_image_size_mb = 50, model_path_smpl = ''/app/models/smpl''\<rparr>"

definition init_world :: "real \<Rightarrow> world" where
  "init_world t =
     \<lparr>stats = \<lparr>processed_count = 0, error_count = 0, start_time = t, last_activity = t\<rparr>,
      smpl_models = [], fs = [], s3_get_calls = [], s3_objects = [], bus_calls = [],
      cloudwatch = []\<rparr>"

text \<open>An environment in which every call succeeds, on 256 by 256 JPEG images of one
  megabyte, with the clock standing at 100 seconds.\<close>

definition ok_env :: env where
  "ok_env =
     \<lparr>time_at = (\<lambda>site. 100),
      os_makedirs = (\<lambda>p. None),
      s3_download = (\<lambda>bucket key p. None),
      os_getsize = (\<lambda>p. Inr 1048576),
      image_open = (\<lambda>p. Inr (''JPEG'', 256, 256)),
      cv2_imread = (\<lambda>p. Some (256, 256)),
      cv2_imwrite = (\<lambda>p. Inr True),
      write_text = (\<lambda>p text. None),
      s3_upload = (\<lambda>p bucket key content_type. None),
      put_events = (\<lambda>ev. Inr 0),
      put_metric_data = (\<lambda>m. None),
      shutil_rmtree = (\<lambda>p. None),
      randn = (\<lambda>shape. PList []),
      py_repr = (\<lambda>v. ''170.0''),
      fmt_2f = (\<lambda>r. ''0.00''),
      isoformat = (\<lambda>t. ''1970-01-01T00:01:40''),
      json_dumps = (\<lambda>v. ''{}''),
      mem_percent = 0,
      cpu_percent = 0\<rparr>"

text \<open>A connection failure, as the SDK raises it.\<close>

definition conn_error :: exn where
  "conn_error = Exn ''EndpointConnectionError'' ''Could not connect to the endpoint URL''"

text \<open>The object store is unreachable: every download raises.\<close>

definition no_s3_env :: env where
  "no_s3_env = ok_env\<lparr>s3_download := (\<lambda>bucket key p. Some conn_error)\<rparr>"

text \<open>The object store and the event bus are both unreachable.\<close>

definition no_s3_no_bus_env :: env where
  "no_s3_no_bus_env = no_s3_env\<lparr>put_events := (\<lambda>ev. Inl conn_error)\<rparr>"

text \<open>A shutdown signal arrives during the first download: the call raises what
  \<^verbatim>\<open>sys.exit(0)\<close> raises.\<close>

definition system_exit :: exn where
  "system_exit = Exn ''SystemExit'' ''0''"

definition sigterm_env :: env where
  "sigterm_env = ok_env\<lparr>s3_download := (\<lambda>bucket key p. Some system_exit)\<rparr>"

text \<open>The object store is unreachable and the workspace cannot be removed.\<close>

definition no_s3_no_rmtree_env :: env where
  "no_s3_no_rmtree_env =
     no_s3_env\<lparr>shutil_rmtree := (\<lambda>p. Some (Exn ''PermissionError'' ''Permission denied''))\<rparr>"

section \<open>Observations used in the statements and the proofs\<close>

text \<open>What \<^verbatim>\<open>_generate_text_prompt\<close> reads of a mesh fit: its gender, and its height
  measurement (\<open>None\<close> when the measurements are not a dict).\<close>

definition mesh_gender :: "(string \<times> pyval) list \<Rightarrow> pyval" where
  "mesh_gender mesh_results = dict_get mesh_results ''gender'' (PStr ''neutral'')"

definition mesh_height :: "(string \<times> pyval) list \<Rightarrow> pyval option" where
  "mesh_height mesh_results =
     (case dict_get mesh_results ''estimated_measurements'' (PDict []) of
        PDict ms \<Rightarrow> Some (dict_get ms ''height_cm'' (PInt 170))
      | _ \<Rightarrow> None)"

text \<open>A process lifetime as far as the model cache goes: \<^verbatim>\<open>_load_smpl_models\<close> called
  once per environment of the list, each call on the state the one before left, whether
  it returned or raised; the outcomes are collected in order.\<close>

fun load_calls :: "env list \<Rightarrow> config \<Rightarrow> world \<Rightarrow> (exn + unit) list \<times> world" where
  "load_calls [] cfg w = ([], w)"
| "load_calls (en # ens) cfg w =
     (case load_smpl_models en cfg w of
        (r, w') \<Rightarrow> (case load_calls ens cfg w' of (rs, w'') \<Rightarrow> (r # rs, w'')))"

text \<open>The \<^verbatim>\<open>put_events\<close> calls that carried a failure event, and the failure events
  the bus took: those of a call that returned with no failed entry.\<close>

definition is_failure_event :: "event \<Rightarrow> bool" where
  "is_failure_event ev = (ev_detail_type ev = ''SMPL Processing Failed'')"

definition failure_calls :: "world \<Rightarrow> (event \<times> (exn + nat)) list" where
  "failure_calls w = filter (\<lambda>(ev, outcome). is_failure_event ev) (bus_calls w)"

definition failure_events :: "world \<Rightarrow> event list" where
  "failure_events w = map fst (filter (\<lambda>(ev, outcome). outcome = Inr 0) (failure_calls w))"

text \<open>The session workspace of \<^verbatim>\<open>process_image\<close>.\<close>

definition workspace :: "string \<Rightarrow> string" where
  "workspace session_id = ''/app/temp/'' @ session_id"

text \<open>A step leaves an observation \<open>f\<close> of the state as it is.\<close>

definition preserves :: "(world \<Rightarrow> 'b) \<Rightarrow> 'a prog \<Rightarrow> bool" where
  "preserves f m = (\<forall>w. f (snd (m w)) = f w)"


text \<open>Two states that differ at most in the two telemetry logs (the \<^verbatim>\<open>put_events\<close>
  calls and the accepted metrics), and two steps that, from such states, have the same
  outcome and lead to such states again.\<close>

definition same_but_telemetry :: "world \<Rightarrow> world \<Rightarrow> bool" where
  "same_but_telemetry w w' =
     (stats w = stats w' \<and> smpl_models w = smpl_models w' \<and> fs w = fs w'
      \<and> s3_get_calls w = s3_get_calls w' \<and> s3_objects w = s3_objects w')"

definition sim :: "'a prog \<Rightarrow> 'a prog \<Rightarrow> bool" where
  "sim m m' =
     (\<forall>w w'. same_but_telemetry w w' \<longrightarrow>
        fst (m w) = fst (m' w') \<and> same_but_telemetry (snd (m w)) (snd (m' w')))"

text \<open>The two observations followed through a session: the statistics and the
  failure-event calls.\<close>

abbreviation watched :: "world \<Rightarrow> stats \<times> (event \<times> (exn + nat)) list" where
  "watched \<equiv> (\<lambda>w. (stats w, failure_calls w))"

text \<open>The keys of line 432 for the five files \<^verbatim>\<open>_generate_guidance_assets\<close> writes
  in \<open>temp_dir\<close>, in the order of the dict.\<close>

definition five_keys :: "env \<Rightarrow> string \<Rightarrow> string \<Rightarrow> (string \<times> string) list" where
  "five_keys en session_id temp_dir =
     [(''depth'', s3_key_of ''depth'' session_id
         (py_int (time_at en (AtUpload ''depth''))) (temp_dir @ ''/depth.png'')),
      (''normals'', s3_key_of ''normals'' session_id
         (py_int (time_at en (AtUpload ''normals''))) (temp_dir @ ''/normals.png'')),
      (''pose'', s3_key_of ''pose'' session_id
         (py_int (time_at en (AtUpload ''pose''))) (temp_dir @ ''/pose.png'')),
      (''segments'', s3_key_of ''segments'' session_id
         (py_int (time_at en (AtUpload ''segments''))) (temp_dir @ ''/segments.png'')),
      (''prompt'', s3_key_of ''prompt'' session_id
         (py_int (time_at en (AtUpload ''prompt''))) (temp_dir @ ''/prompt.txt''))]"

text \<open>What the \<^verbatim>\<open>try\<close> block of \<^verbatim>\<open>process_image\<close> leaves, from a state \<open>w\<close>:
  no failure-event call; when it returns, the success result and the statistics of a
  processed session; when it raises, the statistics as they were, unless the error came
  out of the metrics sent after line 220, which only an error that is no
  \<^verbatim>\<open>Exception\<close> can.\<close>

definition body_outcome ::
  "env \<Rightarrow> string \<Rightarrow> real \<Rightarrow> string \<Rightarrow> world \<Rightarrow> exn + result \<Rightarrow> world \<Rightarrow> bool" where
  "body_outcome en session_id t_start temp_dir w r w' =
     (failure_calls w' = failure_calls w
      \<and> (case r of
            Inr res \<Rightarrow>
              r_status res = ''success''
            \<and> r_session_id res = session_id
            \<and> r_processing_time res = time_at en AtEnd - t_start
            \<and> r_guidance_assets res = five_keys en session_id temp_dir
            \<and> stats w' = (stats w)\<lparr>processed_count := processed_count (stats w) + 1,
                                    last_activity := time_at en AtActivity\<rparr>
          | Inl e \<Rightarrow>
              stats w' = stats w
            \<or> (\<not> catchable e
                \<and> stats w' = (stats w)\<lparr>processed_count := processed_count (stats w) + 1,
                                         last_activity := time_at en AtActivity\<rparr>)))"

text \<open>At most one failure-event call for the session was added between two states.\<close>

definition at_most_one_failure_call ::
  "env \<Rightarrow> config \<Rightarrow> string \<Rightarrow> string \<Rightarrow> world \<Rightarrow> world \<Rightarrow> bool" where
  "at_most_one_failure_call en cfg session_id user_id w w' =
     (failure_calls w' = failure_calls w
      \<or> (\<exists>msg. failure_calls w' = failure_calls w
             @ [(error_event en cfg session_id user_id msg,
                 put_events en (error_event en cfg session_id user_id msg))]))"

section \<open>Facts about the string functions\<close>

lemma lt10: "(d::nat) < 10 \<Longrightarrow> d \<in> {0, 1, 2, 3, 4, 5, 6, 7, 8, 9}"
  by auto

lemma digit_char_in: "d < 10 \<Longrightarrow> digit_char d \<in> set ''0123456789''"
  using lt10[of d] by (auto simp: digit_char_def)

lemma digit_char_inj: "a < 10 \<Longrightarrow> b < 10 \<Longrightarrow> digit_char a = digit_char b \<Longrightarrow> a = b"
proof -
  assume a: "a < 10" and b: "b < 10" and e: "digit_char a = digit_char b"
  have d: "distinct ''0123456789''" by simp
  have l: "length ''0123456789'' = 10" by simp
  from a b l have "a < length ''0123456789''" "b < length ''0123456789''" by simp_all
  with d e show ?thesis unfolding digit_char_def by (simp only: nth_eq_iff_index_eq)
qed

lemma digits_ne: "digits n \<noteq> []"
  by (subst digits.simps) simp

lemma digits_small: "n < 10 \<Longrightarrow> digits n = [digit_char n]"
  by (subst digits.simps) simp

lemma digits_large: "\<not> n < 10 \<Longrightarrow> digits n = digits (n div 10) @ [digit_char (n mod 10)]"
  by (subst digits.simps) simp

lemma digits_set: "set (digits n) \<subseteq> set ''0123456789''"
proof (induction n rule: digits.induct)
  case (1 n)
  show ?case
  proof (cases "n < 10")
    case True
    then show ?thesis using digit_char_in[of n] by (simp add: digits_small)
  next
    case False
    have "digit_char (n mod 10) \<in> set ''0123456789''" by (rule digit_char_in) simp
    with False 1 show ?thesis by (simp add: digits_large)
  qed
qed

lemma digits_inj: "digits n = digits m \<Longrightarrow> n = m"
proof (induction n arbitrary: m rule: digits.induct)
  case (1 n)
  show ?case
  proof (cases "n < 10")
    case True
    note dn = digits_small[OF True]
    show ?thesis
    proof (cases "m < 10")
      case mT: True
      with dn 1(2) True show ?thesis using digit_char_inj[of n m] by (simp add: digits_small)
    next
      case mF: False
      with dn 1(2) have "digits (m div 10) = []" by (simp add: digits_large)
      then show ?thesis using digits_ne by simp
    qed
  next
    case False
    note dn = digits_large[OF False]
    show ?thesis
    proof (cases "m < 10")
      case mT: True
      with dn 1(2) have "digits (n div 10) = []" by (simp add: digits_small)
      then show ?thesis using digits_ne by simp
    next
      case mF: False
      with dn 1(2) have a: "digits (n div 10) = digits (m div 10)"
        and b: "digit_char (n mod 10) = digit_char (m mod 10)" by (simp_all add: digits_large)
      from 1(1)[OF False a] have "n div 10 = m div 10" .
      moreover from b have "n mod 10 = m mod 10"
        using digit_char_inj[of "n mod 10" "m mod 10"] by simp
      ultimately show ?thesis by (metis div_mult_mod_eq)
    qed
  qed
qed

lemma digits_no_minus: "CHR ''-'' \<notin> set (digits n)"
  using digits_set[of n] by auto

lemma show_int_inj: "show_int i = show_int j \<Longrightarrow> i = j"
proof -
  assume e: "show_int i = show_int j"
  have hd_digits: "\<And>n. hd (digits n) \<noteq> CHR ''-''"
    using digits_no_minus digits_ne by (metis hd_in_set)
  show ?thesis
  proof (cases "i < 0")
    case True
    show ?thesis
    proof (cases "j < 0")
      case jT: True
      with True e have "digits (nat (- i)) = digits (nat (- j))" by (simp add: show_int_def)
      then have "nat (- i) = nat (- j)" by (rule digits_inj)
      with True jT show ?thesis by simp
    next
      case jF: False
      with True e have "CHR ''-'' # digits (nat (- i)) = digits (nat j)" by (simp add: show_int_def)
      then have "hd (digits (nat j)) = CHR ''-''" by (metis list.sel(1))
      with hd_digits show ?thesis by simp
    qed
  next
    case False
    show ?thesis
    proof (cases "j < 0")
      case jT: True
      with False e have "digits (nat i) = CHR ''-'' # digits (nat (- j))" by (simp add: show_int_def)
      then have "hd (digits (nat i)) = CHR ''-''" by (metis list.sel(1))
      with hd_digits show ?thesis by simp
    next
      case jF: False
      with False e have "digits (nat i) = digits (nat j)" by (simp add: show_int_def)
      then have "nat i = nat j" by (rule digits_inj)
      with False jF show ?thesis by simp
    qed
  qed
qed

lemma show_int_no_dot: "CHR ''.'' \<notin> set (show_int i)"
  using digits_set[of "nat i"] digits_set[of "nat (- i)"] by (auto simp: show_int_def)

lemma before_dot_eq:
  assumes "CHR ''.'' \<notin> set a" and "CHR ''.'' \<notin> set b" and "a @ CHR ''.'' # x = b @ CHR ''.'' # y"
  shows "a = b"
proof -
  have "takeWhile (\<lambda>c. c \<noteq> CHR ''.'') (a @ CHR ''.'' # x) = a"
    using assms(1) by (auto simp: takeWhile_tail)
  moreover have "takeWhile (\<lambda>c. c \<noteq> CHR ''.'') (b @ CHR ''.'' # y) = b"
    using assms(2) by (auto simp: takeWhile_tail)
  ultimately show ?thesis using assms(3) by simp
qed

lemma s3_key_of_timestamp_inj:
  "s3_key_of k sid t1 lp1 = s3_key_of k sid t2 lp2 \<Longrightarrow> t1 = t2"
proof -
  assume "s3_key_of k sid t1 lp1 = s3_key_of k sid t2 lp2"
  then have "show_int t1 @ CHR ''.'' # split_last (CHR ''.'') lp1
           = show_int t2 @ CHR ''.'' # split_last (CHR ''.'') lp2"
    by (simp add: s3_key_of_def)
  then have "show_int t1 = show_int t2"
    using before_dot_eq show_int_no_dot by blast
  then show ?thesis by (rule show_int_inj)
qed

lemma py_int_separated: "0 \<le> t1 \<Longrightarrow> t1 + 1 \<le> t2 \<Longrightarrow> py_int t1 < py_int t2"
proof -
  assume a: "0 \<le> t1" and b: "t1 + 1 \<le> t2"
  have "\<lfloor>t1\<rfloor> + 1 = \<lfloor>t1 + 1\<rfloor>" by simp
  also have "\<dots> \<le> \<lfloor>t2\<rfloor>" using b by (rule floor_mono)
  finally show ?thesis using a b by (simp add: py_int_def)
qed

section \<open>Image validation\<close>

text \<open>
  C5.  \<^verbatim>\<open>_validate_image\<close> accepts a file exactly when its size in megabytes does not
  exceed the configured maximum, it decodes, its format is JPEG, PNG or WEBP, and its
  width and height are both at least 256; in every other case it raises.
\<close>

theorem validate_image_accepts_iff:
  "validate_image en cfg image_path image_type = Inr () \<longleftrightarrow>
     (\<exists>size_bytes format width height.
        os_getsize en image_path = Inr size_bytes
      \<and> \<not> real size_bytes / (1024 * 1024) > real_of_int (max_image_size_mb cfg)
      \<and> image_open en image_path = Inr (format, width, height)
      \<and> format \<in> {''JPEG'', ''PNG'', ''WEBP''}
      \<and> 256 \<le> width \<and> 256 \<le> height)"
  by (auto simp: validate_image_def Let_def split: sum.splits prod.splits)

text \<open>The four cases of the specification: a file of 52533658 bytes (just over 50.1 MB)
  under a limit of 50 MB, a 200 by 200 image, a GIF, and a 256 by 256 JPEG of exactly
  50 MB.\<close>

theorem validate_image_accepts_iff_witness:
  "validate_image (ok_env\<lparr>os_getsize := (\<lambda>p. Inr 52533658)\<rparr>) default_config ''a.jpg'' ''avatar'' \<noteq> Inr ()
   \<and> validate_image (ok_env\<lparr>image_open := (\<lambda>p. Inr (''JPEG'', 200, 200))\<rparr>) default_config ''a.jpg'' ''avatar'' \<noteq> Inr ()
   \<and> validate_image (ok_env\<lparr>image_open := (\<lambda>p. Inr (''GIF'', 256, 256))\<rparr>) default_config ''a.jpg'' ''avatar'' \<noteq> Inr ()
   \<and> validate_image (ok_env\<lparr>os_getsize := (\<lambda>p. Inr 52428800)\<rparr>) default_config ''a.jpg'' ''avatar'' = Inr ()"
  using validate_image_accepts_iff [of "ok_env\<lparr>os_getsize := (\<lambda>p. Inr 52533658)\<rparr>" default_config "''a.jpg''" "''avatar''"]
    validate_image_accepts_iff [of "ok_env\<lparr>image_open := (\<lambda>p. Inr (''JPEG'', 200, 200))\<rparr>" default_config "''a.jpg''" "''avatar''"]
    validate_image_accepts_iff [of "ok_env\<lparr>image_open := (\<lambda>p. Inr (''GIF'', 256, 256))\<rparr>" default_config "''a.jpg''" "''avatar''"]
    validate_image_accepts_iff [of "ok_env\<lparr>os_getsize := (\<lambda>p. Inr 52428800)\<rparr>" default_config "''a.jpg''" "''avatar''"]
  by (simp add: ok_env_def default_config_def)

section \<open>The text prompt\<close>

lemma generate_text_prompt_eq:
  "generate_text_prompt en mesh_results garment_path =
     (case mesh_height mesh_results of
        None \<Rightarrow> Inl no_get
      | Some h \<Rightarrow>
          Inr (''A '' @ py_str en (mesh_gender mesh_results) @ '' person with height ''
                 @ py_str en h @ ''cm, ''
                 @ ''wearing fashionable clothing, standing pose, ''
                 @ ''professional photography, high quality, detailed textures, ''
                 @ ''natural lighting, realistic proportions''))"
  by (simp add: generate_text_prompt_def mesh_height_def mesh_gender_def Let_def split: pyval.splits)

text \<open>
  C8.  Two calls of \<^verbatim>\<open>_generate_text_prompt\<close> on mesh fits that agree on the gender
  and on the height measurement return the same prompt (or raise the same error),
  whatever the other fields of the mesh fits and the garment paths are.
\<close>

theorem generate_text_prompt_deterministic:
  "mesh_gender m1 = mesh_gender m2 \<Longrightarrow> mesh_height m1 = mesh_height m2 \<Longrightarrow>
     generate_text_prompt en m1 garment_path1 = generate_text_prompt en m2 garment_path2"
  by (simp add: generate_text_prompt_eq split: option.splits)

theorem generate_text_prompt_deterministic_witness:
  "generate_text_prompt ok_env
       [(''body_shape'', PList [PFloat 1]), (''gender'', PStr ''female''), (''fit_confidence'', PFloat 0.78),
        (''estimated_measurements'', PDict [(''height_cm'', PInt 165), (''chest_cm'', PFloat 88)])]
       ''/app/temp/S1/garment.jpg''
   = generate_text_prompt ok_env
       [(''estimated_measurements'', PDict [(''hip_cm'', PFloat 95), (''height_cm'', PInt 165)]),
        (''gender'', PStr ''female'')]
       ''/app/temp/S2/garment.jpg''
   \<and> generate_text_prompt ok_env
       [(''estimated_measurements'', PDict [(''hip_cm'', PFloat 95), (''height_cm'', PInt 165)]),
        (''gender'', PStr ''female'')]
       ''/app/temp/S2/garment.jpg''
     = Inr (''A female person with height 165cm, wearing fashionable clothing, standing pose, ''
            @ ''professional photography, high quality, detailed textures, ''
            @ ''natural lighting, realistic proportions'')"
proof -
  let ?m1 = "[(''body_shape'', PList [PFloat 1]), (''gender'', PStr ''female''), (''fit_confidence'', PFloat 0.78),
        (''estimated_measurements'', PDict [(''height_cm'', PInt 165), (''chest_cm'', PFloat 88)])]"
  let ?m2 = "[(''estimated_measurements'', PDict [(''hip_cm'', PFloat 95), (''height_cm'', PInt 165)]),
        (''gender'', PStr ''female'')]"
  have g: "mesh_gender ?m1 = mesh_gender ?m2" by (simp add: mesh_gender_def dict_get_def)
  have h: "mesh_height ?m1 = mesh_height ?m2" by (simp add: mesh_height_def dict_get_def)
  have "generate_text_prompt ok_env ?m1 ''/app/temp/S1/garment.jpg''
      = generate_text_prompt ok_env ?m2 ''/app/temp/S2/garment.jpg''"
    by (rule generate_text_prompt_deterministic [OF g h])
  moreover have "generate_text_prompt ok_env ?m2 ''/app/temp/S2/garment.jpg''
     = Inr (''A female person with height 165cm, wearing fashionable clothing, standing pose, ''
            @ ''professional photography, high quality, detailed textures, ''
            @ ''natural lighting, realistic proportions'')"
    by (simp add: generate_text_prompt_def dict_get_def py_str_def show_int_def digits.simps digit_char_def)
  ultimately show ?thesis by simp
qed

section \<open>The health snapshot\<close>

text \<open>
  C10.  In every state, \<^verbatim>\<open>get_health_status\<close> returns a dict whose keys are exactly
  status, uptime_seconds, processed_count, error_count, memory_usage_percent,
  cpu_usage_percent, last_activity and models_loaded, whose status is the string
  healthy, and whose counters are those of the state; it leaves the state as it was.
\<close>

theorem get_health_status_healthy:
  "map fst (fst (get_health_status en w)) =
     [''status'', ''uptime_seconds'', ''processed_count'', ''error_count'',
      ''memory_usage_percent'', ''cpu_usage_percent'', ''last_activity'', ''models_loaded'']
   \<and> map_of (fst (get_health_status en w)) ''status'' = Some (PStr ''healthy'')
   \<and> map_of (fst (get_health_status en w)) ''error_count'' = Some (PInt (error_count (stats w)))
   \<and> map_of (fst (get_health_status en w)) ''processed_count'' = Some (PInt (processed_count (stats w)))
   \<and> snd (get_health_status en w) = w"
  by (simp add: get_health_status_def)

section \<open>Sequencing\<close>

lemma bind_apply:
  "bind m f w = (case m w of (Inl e, w') \<Rightarrow> (Inl e, w') | (Inr a, w') \<Rightarrow> f a w')"
  by (simp add: bind_def)

lemma bind_Inr: "m w = (Inr a, w') \<Longrightarrow> bind m f w = f a w'"
  by (simp add: bind_def)

lemma bind_Inl: "m w = (Inl e, w') \<Longrightarrow> bind m f w = (Inl e, w')"
  by (simp add: bind_def)

lemma bind_cases:
  assumes "bind m f w = (r, w'')"
  obtains (raised) e where "m w = (Inl e, w'')" and "r = Inl e"
        | (returned) a w' where "m w = (Inr a, w')" and "f a w' = (r, w'')"
  using assms by (auto simp: bind_def split: prod.splits sum.splits)

section \<open>Upload keys\<close>

lemma dict_set_subset: "set (dict_set d k v) \<subseteq> insert (k, v) (set d)"
  unfolding dict_set_def by (induction d) auto

lemma upload_file_cases:
  assumes "upload_file en local_path bucket key content_type w = (r, w')"
  shows "(r = Inr () \<and> w' = w\<lparr>s3_objects := s3_objects w @ [(bucket, key)]\<rparr>) \<or> ((\<exists>e. r = Inl e) \<and> w' = w)"
  using assms by (auto simp: upload_file_def split: option.splits)

lemma upload_items_keys:
  "upload_items en cfg session_id items s3_keys w = (Inr keys, w') \<Longrightarrow> (k, v) \<in> set keys \<Longrightarrow>
     (k, v) \<in> set s3_keys
     \<or> (\<exists>local_path. (k, local_path) \<in> set items
           \<and> v = s3_key_of k session_id (py_int (time_at en (AtUpload k))) local_path)"
proof (induction items arbitrary: s3_keys w)
  case Nil
  then show ?case by (simp add: ret_def)
next
  case (Cons item rest)
  obtain asset_type local_path where item: "item = (asset_type, local_path)" by (cases item)
  let ?key = "s3_key_of asset_type session_id (py_int (time_at en (AtUpload asset_type))) local_path"
  from Cons.prems(1) item
  have "bind (upload_file en local_path (bucket_guidance cfg) ?key (get_content_type local_path))
          (\<lambda>u. upload_items en cfg session_id rest (dict_set s3_keys asset_type ?key)) w
        = (Inr keys, w')"
    by (simp add: Let_def)
  then obtain w1 where
    rest: "upload_items en cfg session_id rest (dict_set s3_keys asset_type ?key) w1 = (Inr keys, w')"
    by (cases rule: bind_cases) auto
  from Cons.IH [OF rest Cons.prems(2)]
  show ?case
  proof
    assume "(k, v) \<in> set (dict_set s3_keys asset_type ?key)"
    then have "(k, v) = (asset_type, ?key) \<or> (k, v) \<in> set s3_keys"
      using dict_set_subset by fastforce
    then show ?thesis using item by auto
  next
    assume "\<exists>lp. (k, lp) \<in> set rest \<and> v = s3_key_of k session_id (py_int (time_at en (AtUpload k))) lp"
    then show ?thesis by auto
  qed
qed

lemma upload_guidance_assets_keys:
  assumes "upload_guidance_assets en cfg session_id assets temp_dir w = (Inr keys, w')"
      and "(k, v) \<in> set keys"
  shows "\<exists>local_path. (k, local_path) \<in> set assets
           \<and> v = s3_key_of k session_id (py_int (time_at en (AtUpload k))) local_path"
  using upload_items_keys [of en cfg session_id assets "[]" w keys w' k v] assms
  by (simp add: upload_guidance_assets_def)

text \<open>
  C6.  Every key \<^verbatim>\<open>_upload_guidance_assets\<close> returns for an asset kind is
  \<open>kind/session_id-timestamp.extension\<close>, the timestamp being the whole seconds of the
  clock at that upload and the extension what follows the last dot of the local path;
  and two uploads for the same session and kind, the second at least one second after
  the first, return different keys.  Clock readings are Unix times, so not negative.
\<close>

theorem upload_key_shape_and_distinct:
  assumes "upload_guidance_assets en1 cfg1 session_id assets1 temp_dir1 w1 = (Inr keys1, w1')"
      and "upload_guidance_assets en2 cfg2 session_id assets2 temp_dir2 w2 = (Inr keys2, w2')"
      and "(asset_type, key1) \<in> set keys1"
      and "(asset_type, key2) \<in> set keys2"
      and "0 \<le> time_at en1 (AtUpload asset_type)"
      and "time_at en1 (AtUpload asset_type) + 1 \<le> time_at en2 (AtUpload asset_type)"
  shows "(\<exists>local_path. (asset_type, local_path) \<in> set assets1
            \<and> key1 = asset_type @ ''/'' @ session_id @ ''-''
                 @ show_int (py_int (time_at en1 (AtUpload asset_type))) @ ''.''
                 @ split_last (CHR ''.'') local_path)
       \<and> (\<exists>local_path. (asset_type, local_path) \<in> set assets2
            \<and> key2 = asset_type @ ''/'' @ session_id @ ''-''
                 @ show_int (py_int (time_at en2 (AtUpload asset_type))) @ ''.''
                 @ split_last (CHR ''.'') local_path)
       \<and> key1 \<noteq> key2"
proof -
  from upload_guidance_assets_keys [OF assms(1) assms(3)] obtain lp1 where
    lp1: "(asset_type, lp1) \<in> set assets1"
      "key1 = s3_key_of asset_type session_id (py_int (time_at en1 (AtUpload asset_type))) lp1"
    by blast
  from upload_guidance_assets_keys [OF assms(2) assms(4)] obtain lp2 where
    lp2: "(asset_type, lp2) \<in> set assets2"
      "key2 = s3_key_of asset_type session_id (py_int (time_at en2 (AtUpload asset_type))) lp2"
    by blast
  have "py_int (time_at en1 (AtUpload asset_type)) < py_int (time_at en2 (AtUpload asset_type))"
    using assms(5,6) by (rule py_int_separated)
  then have "key1 \<noteq> key2"
    using lp1(2) lp2(2) s3_key_of_timestamp_inj by fastforce
  with lp1 lp2 show ?thesis unfolding s3_key_of_def by blast
qed

theorem upload_key_shape_and_distinct_witness:
  "fst (upload_guidance_assets ok_env default_config ''S1''
          [(''depth'', ''/app/temp/S1/depth.png'')] ''/app/temp/S1'' (init_world 0))
     = Inr [(''depth'', ''depth/S1-100.png'')]
   \<and> fst (upload_guidance_assets (ok_env\<lparr>time_at := (\<lambda>site. 101)\<rparr>) default_config ''S1''
          [(''depth'', ''/app/temp/S1/depth.png'')] ''/app/temp/S1'' (init_world 0))
     = Inr [(''depth'', ''depth/S1-101.png'')]
   \<and> (0::real) \<le> time_at ok_env (AtUpload ''depth'')
   \<and> time_at ok_env (AtUpload ''depth'') + 1 \<le> time_at (ok_env\<lparr>time_at := (\<lambda>site. 101)\<rparr>) (AtUpload ''depth'')
   \<and> ''depth/S1-100.png'' \<noteq> ''depth/S1-101.png''"
proof -
  let ?en2 = "ok_env\<lparr>time_at := (\<lambda>site. 101)\<rparr>"
  let ?assets = "[(''depth'', ''/app/temp/S1/depth.png'')]"
  obtain w1' where r1: "upload_guidance_assets ok_env default_config ''S1'' ?assets ''/app/temp/S1'' (init_world 0)
      = (Inr [(''depth'', ''depth/S1-100.png'')], w1')"
    by (simp add: upload_guidance_assets_def bind_def ret_def upload_file_def ok_env_def
        s3_key_of_def py_int_def show_int_def digits.simps digit_char_def split_last_def
        dict_set_def Let_def)
  obtain w2' where r2: "upload_guidance_assets ?en2 default_config ''S1'' ?assets ''/app/temp/S1'' (init_world 0)
      = (Inr [(''depth'', ''depth/S1-101.png'')], w2')"
    by (simp add: upload_guidance_assets_def bind_def ret_def upload_file_def ok_env_def
        s3_key_of_def py_int_def show_int_def digits.simps digit_char_def split_last_def
        dict_set_def Let_def)
  have t1: "0 \<le> time_at ok_env (AtUpload ''depth'')" by (simp add: ok_env_def)
  have t2: "time_at ok_env (AtUpload ''depth'') + 1 \<le> time_at ?en2 (AtUpload ''depth'')"
    by (simp add: ok_env_def)
  have m1: "(''depth'', ''depth/S1-100.png'') \<in> set [(''depth'', ''depth/S1-100.png'')]" by simp
  have m2: "(''depth'', ''depth/S1-101.png'') \<in> set [(''depth'', ''depth/S1-101.png'')]" by simp
  have "''depth/S1-100.png'' \<noteq> ''depth/S1-101.png''"
    using upload_key_shape_and_distinct [OF r1 r2 m1 m2 t1 t2] by blast
  with r1 r2 t1 t2 show ?thesis by simp
qed

section \<open>The model cache\<close>

lemma load_smpl_models_cached:
  "smpl_models w \<noteq> [] \<Longrightarrow> load_smpl_models en cfg w = (Inr (), w)"
  by (simp add: load_smpl_models_def)

lemma load_smpl_models_populates:
  "load_smpl_models en cfg w = (Inr (), w') \<Longrightarrow> smpl_models w' \<noteq> []"
  by (auto simp: load_smpl_models_def bind_def split: if_splits prod.splits sum.splits)

lemma load_calls_cached:
  "smpl_models w \<noteq> [] \<Longrightarrow> load_calls ens cfg w = (replicate (length ens) (Inr ()), w)"
  by (induction ens) (simp_all add: load_smpl_models_cached)

lemma load_calls_populates:
  "load_calls ens cfg w = (rs, w') \<Longrightarrow> Inr () \<in> set rs \<Longrightarrow> smpl_models w' \<noteq> []"
proof (induction ens arbitrary: w rs)
  case Nil
  then show ?case by simp
next
  case (Cons en ens)
  obtain r w1 where first: "load_smpl_models en cfg w = (r, w1)" by (cases "load_smpl_models en cfg w")
  obtain rs' w2 where rest: "load_calls ens cfg w1 = (rs', w2)" by (cases "load_calls ens cfg w1")
  from Cons.prems(1) first rest have rs: "rs = r # rs'" and w': "w' = w2" by simp_all
  show ?case
  proof (cases "r = Inr ()")
    case True
    with first have "smpl_models w1 \<noteq> []" by (simp add: load_smpl_models_populates)
    with rest w' show ?thesis by (simp add: load_calls_cached)
  next
    case False
    with Cons.prems(2) rs have "Inr () \<in> set rs'" by auto
    with Cons.IH rest w' show ?thesis by simp
  qed
qed

text \<open>
  C4.  Once a call of \<^verbatim>\<open>_load_smpl_models\<close> has returned normally in a process
  lifetime, every later call, in any number and whatever the environment does, returns
  normally at once and leaves the whole state as it is: the same model handles, and no
  further \<^verbatim>\<open>download_file\<close> call.
\<close>

theorem load_smpl_models_fetches_once:
  assumes "load_calls ens1 cfg w = (rs1, w1)"
      and "Inr () \<in> set rs1"
  shows "load_calls ens2 cfg w1 = (replicate (length ens2) (Inr ()), w1)
       \<and> smpl_models (snd (load_calls ens2 cfg w1)) = smpl_models w1
       \<and> s3_get_calls (snd (load_calls ens2 cfg w1)) = s3_get_calls w1
       \<and> smpl_models w1 \<noteq> []"
  using load_calls_populates [OF assms] by (simp add: load_calls_cached)

text \<open>A first call that fails on the network, a second that succeeds, then two more, one
  of them with the network down again.\<close>

theorem load_smpl_models_fetches_once_witness:
  "Inr () \<in> set (fst (load_calls [no_s3_env, ok_env] default_config (init_world 0)))
   \<and> load_calls [no_s3_env, ok_env] default_config
        (snd (load_calls [no_s3_env, ok_env] default_config (init_world 0)))
     = ([Inr (), Inr ()], snd (load_calls [no_s3_env, ok_env] default_config (init_world 0)))"
proof -
  have h: "Inr () \<in> set (fst (load_calls [no_s3_env, ok_env] default_config (init_world 0)))"
    by (simp add: load_smpl_models_def init_world_def model_files_def bind_def ret_def
        path_exists_def makedirs_def download_file_def add_path_def no_s3_env_def ok_env_def
        default_config_def dirname_def Let_def)
  from load_smpl_models_fetches_once [OF surjective_pairing h, of "[no_s3_env, ok_env]"]
  show ?thesis using h by simp
qed

section \<open>The best-effort steps\<close>

text \<open>\<^verbatim>\<open>_send_metrics\<close>, \<^verbatim>\<open>_publish_error_event\<close> and
  \<^verbatim>\<open>_cleanup_temp_files\<close> swallow every \<^verbatim>\<open>Exception\<close> of their call and let
  any other exception pass.\<close>

lemma send_metrics_eq:
  "send_metrics en metric_name val dimensions w =
     (let m = \<lparr>m_name = metric_name, m_value = val,
                m_unit = (if py_in ''Count'' metric_name \<or> py_in ''Error'' metric_name
                          then ''Count'' else ''Seconds''),
                m_dimensions = dimensions, m_timestamp = time_at en (AtMetric metric_name)\<rparr>
      in case put_metric_data en m of
           None \<Rightarrow> (Inr (), w\<lparr>cloudwatch := cloudwatch w @ [m]\<rparr>)
         | Some e \<Rightarrow> (if catchable e then Inr () else Inl e, w))"
  by (simp add: send_metrics_def try_except_def put_metric_call_def ret_def Let_def
      split: option.splits)

lemma publish_error_event_eq:
  "publish_error_event en cfg session_id user_id error_message w =
     (let ev = error_event en cfg session_id user_id error_message
      in (case put_events en ev of
            Inl e \<Rightarrow> if catchable e then Inr () else Inl e
          | Inr n \<Rightarrow> Inr (),
          w\<lparr>bus_calls := bus_calls w @ [(ev, put_events en ev)]\<rparr>))"
  by (simp add: publish_error_event_def try_except_def put_events_call_def bind_def ret_def
      Let_def split: sum.splits)

lemma cleanup_temp_files_eq:
  "cleanup_temp_files en temp_dir w =
     (if path_exists temp_dir w
      then (case shutil_rmtree en temp_dir of
              None \<Rightarrow> (Inr (), w\<lparr>fs := filter (\<lambda>p. \<not> below temp_dir p) (fs w)\<rparr>)
            | Some e \<Rightarrow> (if catchable e then Inr () else Inl e, w))
      else (Inr (), w))"
  by (simp add: cleanup_temp_files_def try_except_def rmtree_def ret_def split: option.splits)

lemma send_metrics_outcome:
  "fst (send_metrics en metric_name val dimensions w) = Inr ()
   \<or> (\<exists>e. fst (send_metrics en metric_name val dimensions w) = Inl e \<and> \<not> catchable e)"
  by (simp add: send_metrics_eq Let_def split: option.splits del: py_in.simps)

lemma publish_error_event_outcome:
  "fst (publish_error_event en cfg session_id user_id error_message w) = Inr ()
   \<or> (\<exists>e. fst (publish_error_event en cfg session_id user_id error_message w) = Inl e
          \<and> \<not> catchable e)"
  by (simp add: publish_error_event_eq Let_def split: sum.splits)

lemma cleanup_temp_files_outcome:
  "fst (cleanup_temp_files en temp_dir w) = Inr ()
   \<or> (\<exists>e. fst (cleanup_temp_files en temp_dir w) = Inl e \<and> \<not> catchable e)"
  by (simp add: cleanup_temp_files_eq split: option.splits)

lemma send_metrics_returns:
  "\<forall>m e. put_metric_data en m = Some e \<longrightarrow> catchable e \<Longrightarrow>
     fst (send_metrics en metric_name val dimensions w) = Inr ()"
  by (simp add: send_metrics_eq Let_def split: option.splits del: py_in.simps)

lemma publish_error_event_returns:
  "\<forall>ev e. is_failure_event ev \<longrightarrow> put_events en ev = Inl e \<longrightarrow> catchable e \<Longrightarrow>
     fst (publish_error_event en cfg session_id user_id error_message w) = Inr ()"
proof -
  assume a: "\<forall>ev e. is_failure_event ev \<longrightarrow> put_events en ev = Inl e \<longrightarrow> catchable e"
  have f: "is_failure_event (error_event en cfg session_id user_id error_message)"
    by (simp add: is_failure_event_def error_event_def)
  from a f have "\<forall>e. put_events en (error_event en cfg session_id user_id error_message) = Inl e
                  \<longrightarrow> catchable e"
    by blast
  then show ?thesis
    by (simp add: publish_error_event_eq Let_def split: sum.splits)
qed

lemma cleanup_temp_files_returns:
  "\<forall>e. shutil_rmtree en temp_dir = Some e \<longrightarrow> catchable e \<Longrightarrow>
     fst (cleanup_temp_files en temp_dir w) = Inr ()"
  by (simp add: cleanup_temp_files_eq split: option.splits)

lemma try_finally_snd: "snd (try_finally body fin w) = snd (fin (snd (body w)))"
  by (simp add: try_finally_def split: prod.splits sum.splits)

lemma try_finally_fst:
  "fst (try_finally body fin w) =
     (case fst (fin (snd (body w))) of Inl e \<Rightarrow> Inl e | Inr u \<Rightarrow> fst (body w))"
  by (simp add: try_finally_def split: prod.splits sum.splits)

lemma try_except_apply:
  "try_except body handler w =
     (case fst (body w) of
        Inl e \<Rightarrow> if catchable e then handler e (snd (body w)) else body w
      | Inr a \<Rightarrow> body w)"
  by (simp add: try_except_def split: prod.splits sum.splits)

section \<open>Workspace cleanup\<close>

lemma process_image_state:
  "snd (process_image en cfg session_id user_id avatar_image_key garment_image_key w)
   = snd (cleanup_temp_files en (workspace session_id)
       (snd (try_except
          (process_try en cfg session_id user_id avatar_image_key garment_image_key
             (time_at en AtStart) (workspace session_id))
          (process_except en cfg session_id user_id) w)))"
  by (simp add: process_image_def Let_def workspace_def try_finally_snd)

lemma cleanup_temp_files_removes:
  "shutil_rmtree en temp_dir = None \<Longrightarrow>
     temp_dir \<notin> set (fs (snd (cleanup_temp_files en temp_dir w)))"
  by (simp add: cleanup_temp_files_eq path_exists_def below_def)

lemma cleanup_temp_files_fails:
  "shutil_rmtree en temp_dir \<noteq> None \<Longrightarrow> snd (cleanup_temp_files en temp_dir w) = w"
  by (auto simp: cleanup_temp_files_eq)

section \<open>A session whose first download fails\<close>

lemma process_try_download_fails:
  assumes "os_makedirs en temp_dir = None"
      and "s3_download en (bucket_uploads cfg) avatar_image_key (temp_dir @ ''/avatar.jpg'') = Some e"
  shows "process_try en cfg session_id user_id avatar_image_key garment_image_key t_start temp_dir w
       = (Inl e, (add_path temp_dir w)\<lparr>s3_get_calls := s3_get_calls w
            @ [(bucket_uploads cfg, avatar_image_key, temp_dir @ ''/avatar.jpg'')]\<rparr>)"
  using assms
  by (simp add: process_try_def download_input_images_def makedirs_def download_file_def
      bind_def add_path_def Let_def)

lemma process_except_apply:
  "process_except en cfg session_id user_id e w =
     (let w1 = w\<lparr>stats := (stats w)\<lparr>error_count := error_count (stats w) + 1\<rparr>\<rparr>;
          sm = send_metrics en ''SMPL.ProcessingError'' 1
                 [(''SessionId'', session_id), (''ErrorType'', exn_type e)] w1
      in case fst sm of
           Inl e' \<Rightarrow> (Inl e', snd sm)
         | Inr u \<Rightarrow>
            (let pe = publish_error_event en cfg session_id user_id (exn_msg e) (snd sm)
             in case fst pe of Inl e' \<Rightarrow> (Inl e', snd pe) | Inr u \<Rightarrow> (Inl e, snd pe)))"
  by (simp add: process_except_def bind_def modify_def raise_def Let_def
      split: prod.splits sum.splits del: py_in.simps)

text \<open>The session raises the download error, once the error has been counted, the error
  metric sent and the failure event published, when these two channels and the removal
  of the workspace raise nothing but \<^verbatim>\<open>Exception\<close>s.\<close>

lemma process_image_download_fails:
  assumes "os_makedirs en (workspace session_id) = None"
      and "s3_download en (bucket_uploads cfg) avatar_image_key (workspace session_id @ ''/avatar.jpg'')
           = Some e"
      and "catchable e"
      and "\<forall>m e'. put_metric_data en m = Some e' \<longrightarrow> catchable e'"
      and "\<forall>ev e'. is_failure_event ev \<longrightarrow> put_events en ev = Inl e' \<longrightarrow> catchable e'"
      and "\<forall>e'. shutil_rmtree en (workspace session_id) = Some e' \<longrightarrow> catchable e'"
  shows "process_image en cfg session_id user_id avatar_image_key garment_image_key w
       = (Inl e,
          snd (cleanup_temp_files en (workspace session_id)
            (snd (publish_error_event en cfg session_id user_id (exn_msg e)
              (snd (send_metrics en ''SMPL.ProcessingError'' 1
                      [(''SessionId'', session_id), (''ErrorType'', exn_type e)]
                 ((add_path (workspace session_id) w)\<lparr>
                    s3_get_calls := s3_get_calls w
                      @ [(bucket_uploads cfg, avatar_image_key, workspace session_id @ ''/avatar.jpg'')],
                    stats := (stats w)\<lparr>error_count := error_count (stats w) + 1\<rparr>\<rparr>)))))))"
proof -
  let ?w0 = "(add_path (workspace session_id) w)\<lparr>s3_get_calls := s3_get_calls w
               @ [(bucket_uploads cfg, avatar_image_key, workspace session_id @ ''/avatar.jpg'')]\<rparr>"
  let ?w1 = "?w0\<lparr>stats := (stats ?w0)\<lparr>error_count := error_count (stats ?w0) + 1\<rparr>\<rparr>"
  let ?sm = "send_metrics en ''SMPL.ProcessingError'' 1
               [(''SessionId'', session_id), (''ErrorType'', exn_type e)] ?w1"
  let ?pe = "publish_error_event en cfg session_id user_id (exn_msg e) (snd ?sm)"
  have st: "stats ?w0 = stats w" by (simp add: add_path_def)
  have sm: "fst ?sm = Inr ()" by (rule send_metrics_returns [OF assms(4)])
  have pe: "fst ?pe = Inr ()" by (rule publish_error_event_returns [OF assms(5)])
  have ex: "process_except en cfg session_id user_id e ?w0 = (Inl e, snd ?pe)"
    by (simp only: process_except_apply Let_def sm pe sum.case)
  have body: "try_except
          (process_try en cfg session_id user_id avatar_image_key garment_image_key
             (time_at en AtStart) (workspace session_id))
          (process_except en cfg session_id user_id) w = (Inl e, snd ?pe)"
    by (simp add: try_except_def process_try_download_fails [OF assms(1,2)] assms(3) ex)
  have cl: "fst (cleanup_temp_files en (workspace session_id) (snd ?pe)) = Inr ()"
    by (rule cleanup_temp_files_returns [OF assms(6)])
  have "process_image en cfg session_id user_id avatar_image_key garment_image_key w
      = (Inl e, snd (cleanup_temp_files en (workspace session_id) (snd ?pe)))"
    unfolding process_image_def Let_def workspace_def [symmetric]
    using body cl by (intro prod_eqI) (simp_all add: try_finally_fst try_finally_snd)
  then show ?thesis by (simp only: st)
qed

lemma telemetry_fields:
  "fs (snd (send_metrics en metric_name val dimensions w)) = fs w"
  "stats (snd (send_metrics en metric_name val dimensions w)) = stats w"
  "bus_calls (snd (send_metrics en metric_name val dimensions w)) = bus_calls w"
  "fs (snd (publish_error_event en cfg session_id user_id error_message w)) = fs w"
  "stats (snd (publish_error_event en cfg session_id user_id error_message w)) = stats w"
  "bus_calls (snd (publish_error_event en cfg session_id user_id error_message w))
     = bus_calls w @ [(error_event en cfg session_id user_id error_message,
                       put_events en (error_event en cfg session_id user_id error_message))]"
  "stats (snd (cleanup_temp_files en temp_dir w)) = stats w"
  "bus_calls (snd (cleanup_temp_files en temp_dir w)) = bus_calls w"
  by (simp_all add: send_metrics_eq publish_error_event_eq cleanup_temp_files_eq Let_def
      split: option.splits del: py_in.simps)

lemma conn_error_catchable: "catchable conn_error"
  by (simp add: catchable_def conn_error_def)

lemma no_s3_env_calls:
  "os_makedirs no_s3_env p = None"
  "s3_download no_s3_env bucket key p = Some conn_error"
  "put_metric_data no_s3_env m = None"
  "put_events no_s3_env ev = Inr 0"
  "shutil_rmtree no_s3_env p = None"
  by (simp_all add: no_s3_env_def ok_env_def)

lemma no_s3_no_rmtree_env_calls:
  "os_makedirs no_s3_no_rmtree_env p = None"
  "s3_download no_s3_no_rmtree_env bucket key p = Some conn_error"
  "put_metric_data no_s3_no_rmtree_env m = None"
  "put_events no_s3_no_rmtree_env ev = Inr 0"
  "shutil_rmtree no_s3_no_rmtree_env p = Some (Exn ''PermissionError'' ''Permission denied'')"
  by (simp_all add: no_s3_no_rmtree_env_def no_s3_env_def ok_env_def)

lemma no_s3_no_bus_env_calls:
  "os_makedirs no_s3_no_bus_env p = None"
  "s3_download no_s3_no_bus_env bucket key p = Some conn_error"
  "put_metric_data no_s3_no_bus_env m = None"
  "put_events no_s3_no_bus_env ev = Inl conn_error"
  "shutil_rmtree no_s3_no_bus_env p = None"
  by (simp_all add: no_s3_no_bus_env_def no_s3_env_def ok_env_def)

text \<open>
  C2, as stated, fails: when \<^verbatim>\<open>shutil.rmtree\<close> raises, \<^verbatim>\<open>_cleanup_temp_files\<close>
  catches the error and the workspace stays.  Here the avatar download fails,
  \<^verbatim>\<open>process_image\<close> raises, and \<^verbatim>\<open>/app/temp/S1\<close> still exists afterwards.
\<close>

theorem workspace_remains_counterexample:
  "fst (process_image no_s3_no_rmtree_env default_config ''S1'' ''U1'' ''avatars/a.jpg''
          ''garments/g.jpg'' (init_world 0)) = Inl conn_error
   \<and> ''/app/temp/S1'' \<in> set (fs (snd (process_image no_s3_no_rmtree_env default_config ''S1'' ''U1''
          ''avatars/a.jpg'' ''garments/g.jpg'' (init_world 0))))"
proof -
  have r: "shutil_rmtree no_s3_no_rmtree_env (workspace ''S1'') \<noteq> None"
    by (simp add: no_s3_no_rmtree_env_calls)
  have "process_image no_s3_no_rmtree_env default_config ''S1'' ''U1'' ''avatars/a.jpg''
          ''garments/g.jpg'' (init_world 0)
        = (Inl conn_error,
           snd (cleanup_temp_files no_s3_no_rmtree_env (workspace ''S1'')
            (snd (publish_error_event no_s3_no_rmtree_env default_config ''S1'' ''U1''
                    (exn_msg conn_error)
              (snd (send_metrics no_s3_no_rmtree_env ''SMPL.ProcessingError'' 1
                      [(''SessionId'', ''S1''), (''ErrorType'', exn_type conn_error)]
                 ((add_path (workspace ''S1'') (init_world 0))\<lparr>
                    s3_get_calls := s3_get_calls (init_world 0)
                      @ [(bucket_uploads default_config, ''avatars/a.jpg'',
                          workspace ''S1'' @ ''/avatar.jpg'')],
                    stats := (stats (init_world 0))\<lparr>error_count :=
                               error_count (stats (init_world 0)) + 1\<rparr>\<rparr>)))))))"
    by (rule process_image_download_fails)
       (simp_all add: no_s3_no_rmtree_env_calls catchable_def conn_error_def)
  then show ?thesis
    unfolding cleanup_temp_files_fails [OF r]
    by (simp add: telemetry_fields add_path_def workspace_def init_world_def)
qed

text \<open>
  C2, amended.  Whatever stage fails or none, the state \<^verbatim>\<open>process_image\<close> leaves is
  the one \<^verbatim>\<open>_cleanup_temp_files\<close> leaves on the session workspace
  \<^verbatim>\<open>/app/temp/{session_id}\<close>: cleanup runs on the returning and on the raising path.
  When \<^verbatim>\<open>shutil.rmtree\<close> does not raise on the workspace, the workspace is absent
  afterwards.
\<close>

theorem workspace_absent_after_process_image:
  "(\<exists>w1. snd (process_image en cfg session_id user_id avatar_image_key garment_image_key w)
           = snd (cleanup_temp_files en (''/app/temp/'' @ session_id) w1))
   \<and> (shutil_rmtree en (''/app/temp/'' @ session_id) = None \<longrightarrow>
        ''/app/temp/'' @ session_id
          \<notin> set (fs (snd (process_image en cfg session_id user_id avatar_image_key
                            garment_image_key w))))"
proof -
  obtain w1 where w1: "snd (process_image en cfg session_id user_id avatar_image_key garment_image_key w)
           = snd (cleanup_temp_files en (workspace session_id) w1)"
    using process_image_state by blast
  then show ?thesis
    using cleanup_temp_files_removes [of en "workspace session_id" w1]
    unfolding workspace_def by auto
qed

theorem workspace_absent_after_process_image_witness:
  "shutil_rmtree no_s3_env (''/app/temp/'' @ ''S1'') = None
   \<and> fst (process_image no_s3_env default_config ''S1'' ''U1'' ''avatars/a.jpg'' ''garments/g.jpg''
            (init_world 0)) = Inl conn_error
   \<and> ''/app/temp/'' @ ''S1''
        \<notin> set (fs (snd (process_image no_s3_env default_config ''S1'' ''U1'' ''avatars/a.jpg''
                          ''garments/g.jpg'' (init_world 0))))"
proof -
  have r: "shutil_rmtree no_s3_env (''/app/temp/'' @ ''S1'') = None"
    by (simp add: no_s3_env_calls)
  have "process_image no_s3_env default_config ''S1'' ''U1'' ''avatars/a.jpg''
          ''garments/g.jpg'' (init_world 0)
        = (Inl conn_error,
           snd (cleanup_temp_files no_s3_env (workspace ''S1'')
            (snd (publish_error_event no_s3_env default_config ''S1'' ''U1''
                    (exn_msg conn_error)
              (snd (send_metrics no_s3_env ''SMPL.ProcessingError'' 1
                      [(''SessionId'', ''S1''), (''ErrorType'', exn_type conn_error)]
                 ((add_path (workspace ''S1'') (init_world 0))\<lparr>
                    s3_get_calls := s3_get_calls (init_world 0)
                      @ [(bucket_uploads default_config, ''avatars/a.jpg'',
                          workspace ''S1'' @ ''/avatar.jpg'')],
                    stats := (stats (init_world 0))\<lparr>error_count :=
                               error_count (stats (init_world 0)) + 1\<rparr>\<rparr>)))))))"
    by (rule process_image_download_fails)
       (simp_all add: no_s3_env_calls conn_error_catchable)
  then have f: "fst (process_image no_s3_env default_config ''S1'' ''U1'' ''avatars/a.jpg''
            ''garments/g.jpg'' (init_world 0)) = Inl conn_error"
    by simp
  from workspace_absent_after_process_image [where en = no_s3_env and session_id = "''S1''"
      and cfg = default_config and user_id = "''U1''" and avatar_image_key = "''avatars/a.jpg''"
      and garment_image_key = "''garments/g.jpg''" and w = "init_world 0"] r
  have "''/app/temp/'' @ ''S1''
        \<notin> set (fs (snd (process_image no_s3_env default_config ''S1'' ''U1'' ''avatars/a.jpg''
                          ''garments/g.jpg'' (init_world 0))))"
    by blast
  with r f show ?thesis by blast
qed

section \<open>What the stages leave untouched\<close>

lemma preservesD: "preserves f m \<Longrightarrow> m w = (r, w') \<Longrightarrow> f w' = f w"
  unfolding preserves_def by (metis snd_conv)

lemma preserves_ret: "preserves f (ret x)"
  by (simp add: preserves_def ret_def)

lemma preserves_raise: "preserves f (raise e)"
  by (simp add: preserves_def raise_def)

lemma preserves_lift: "preserves f (lift r)"
  by (simp add: preserves_def lift_def)

lemma preserves_bind:
  assumes "preserves f m" and "\<And>a. preserves f (g a)"
  shows "preserves f (bind m g)"
  unfolding preserves_def
proof
  fix w
  obtain r w1 where m: "m w = (r, w1)" by (cases "m w")
  from preservesD [OF assms(1) m] have k1: "f w1 = f w" .
  show "f (snd (bind m g w)) = f w"
  proof (cases r)
    case (Inl e)
    with m k1 show ?thesis by (simp add: bind_def)
  next
    case (Inr a)
    obtain r2 w2 where g: "g a w1 = (r2, w2)" by (cases "g a w1")
    from preservesD [OF assms(2) g] k1 m Inr g show ?thesis by (simp add: bind_def)
  qed
qed

lemma preserves_if:
  "preserves f m \<Longrightarrow> preserves f m' \<Longrightarrow> preserves f (\<lambda>w. if c w then m w else m' w)"
  by (simp add: preserves_def)

lemma preserves_pair:
  "preserves f m \<Longrightarrow> preserves g m \<Longrightarrow> preserves (\<lambda>w. (f w, g w)) m"
  by (simp add: preserves_def)

text \<open>One step of a sequence, with what it preserves.\<close>

lemma preserves_bind_cases [consumes 2, case_names raised returned]:
  assumes "bind m g w = (r, w')" and "preserves f m"
  obtains e where "r = Inl e" and "m w = (Inl e, w')" and "f w' = f w"
        | a w1 where "m w = (Inr a, w1)" and "f w1 = f w" and "g a w1 = (r, w')"
proof -
  obtain r1 w1 where m: "m w = (r1, w1)" by (cases "m w")
  from preservesD [OF assms(2) m] have k: "f w1 = f w" .
  show thesis
  proof (cases r1)
    case (Inl e)
    with assms(1) m have "r = Inl e" "w' = w1" by (simp_all add: bind_def)
    with m Inl k that(1) show thesis by simp
  next
    case (Inr a)
    with assms(1) m have "g a w1 = (r, w')" by (simp add: bind_def)
    with m Inr k that(2) show thesis by simp
  qed
qed

lemma failure_calls_fs [simp]: "failure_calls (w\<lparr>fs := x\<rparr>) = failure_calls w"
  by (simp add: failure_calls_def)

lemma failure_calls_s3_get_calls [simp]: "failure_calls (w\<lparr>s3_get_calls := x\<rparr>) = failure_calls w"
  by (simp add: failure_calls_def)

lemma failure_calls_s3_objects [simp]: "failure_calls (w\<lparr>s3_objects := x\<rparr>) = failure_calls w"
  by (simp add: failure_calls_def)

lemma failure_calls_cloudwatch [simp]: "failure_calls (w\<lparr>cloudwatch := x\<rparr>) = failure_calls w"
  by (simp add: failure_calls_def)

lemma failure_calls_smpl_models [simp]: "failure_calls (w\<lparr>smpl_models := x\<rparr>) = failure_calls w"
  by (simp add: failure_calls_def)

lemma failure_calls_stats [simp]: "failure_calls (w\<lparr>stats := x\<rparr>) = failure_calls w"
  by (simp add: failure_calls_def)

text \<open>The fields a step may write; an observation that ignores them is preserved.\<close>

lemma preserves_makedirs:
  assumes "\<And>w x. f (w\<lparr>fs := x\<rparr>) = f w"
  shows "preserves f (makedirs en p)"
  by (simp add: preserves_def makedirs_def add_path_def assms split: option.splits)

lemma preserves_download_file:
  assumes "\<And>w x. f (w\<lparr>fs := x\<rparr>) = f w" and "\<And>w x. f (w\<lparr>s3_get_calls := x\<rparr>) = f w"
  shows "preserves f (download_file en bucket key local_path)"
  by (simp add: preserves_def download_file_def add_path_def Let_def assms split: option.splits)

lemma preserves_imwrite:
  assumes "\<And>w x. f (w\<lparr>fs := x\<rparr>) = f w"
  shows "preserves f (imwrite en p)"
  by (simp add: preserves_def imwrite_def add_path_def assms split: sum.splits)

lemma preserves_write_file:
  assumes "\<And>w x. f (w\<lparr>fs := x\<rparr>) = f w"
  shows "preserves f (write_file en p text)"
  by (simp add: preserves_def write_file_def add_path_def assms split: option.splits)

lemma preserves_upload_file:
  assumes "\<And>w x. f (w\<lparr>s3_objects := x\<rparr>) = f w"
  shows "preserves f (upload_file en local_path bucket key content_type)"
  by (simp add: preserves_def upload_file_def assms split: option.splits)

lemma preserves_put_events_call:
  assumes "\<And>w x. f (w\<lparr>bus_calls := x\<rparr>) = f w"
  shows "preserves f (put_events_call en ev)"
  by (simp add: preserves_def put_events_call_def assms)

lemma preserves_failure_calls_put_events_call:
  "\<not> is_failure_event ev \<Longrightarrow> preserves failure_calls (put_events_call en ev)"
  by (simp add: preserves_def put_events_call_def failure_calls_def)

lemma preserves_send_metrics:
  assumes "\<And>w x. f (w\<lparr>cloudwatch := x\<rparr>) = f w"
  shows "preserves f (send_metrics en metric_name val dimensions)"
  by (simp add: preserves_def send_metrics_eq Let_def assms split: option.splits del: py_in.simps)

lemma preserves_cleanup_temp_files:
  assumes "\<And>w x. f (w\<lparr>fs := x\<rparr>) = f w"
  shows "preserves f (cleanup_temp_files en temp_dir)"
  by (simp add: preserves_def cleanup_temp_files_eq assms split: option.splits)

lemma preserves_fetch_model_files:
  assumes "\<And>w x. f (w\<lparr>fs := x\<rparr>) = f w" and "\<And>w x. f (w\<lparr>s3_get_calls := x\<rparr>) = f w"
  shows "preserves f (fetch_model_files en cfg files)"
proof (induction files)
  case Nil
  show ?case by (simp add: preserves_ret)
next
  case (Cons model_file rest)
  show ?case
    unfolding fetch_model_files.simps Let_def
    by (intro preserves_if preserves_bind preserves_makedirs preserves_download_file Cons.IH assms)
qed

lemma preserves_load_smpl_models:
  assumes "\<And>w x. f (w\<lparr>fs := x\<rparr>) = f w" and "\<And>w x. f (w\<lparr>s3_get_calls := x\<rparr>) = f w"
      and "\<And>w x. f (w\<lparr>smpl_models := x\<rparr>) = f w"
  shows "preserves f (load_smpl_models en cfg)"
proof -
  have "preserves f (\<lambda>w. (Inr (), w) :: (exn + unit) \<times> world)" by (simp add: preserves_def)
  moreover have "preserves f (bind (fetch_model_files en cfg model_files) (\<lambda>u w'.
                 (Inr (), w'\<lparr>smpl_models :=
                    [(''female'', model_path_smpl cfg @ ''/basicModel_f_lbs_10_207_0_v1.0.0.pkl''),
                     (''male'', model_path_smpl cfg @ ''/basicModel_m_lbs_10_207_0_v1.0.0.pkl''),
                     (''neutral'', model_path_smpl cfg @ ''/basicModel_neutral_lbs_10_207_0_v1.0.0.pkl'')]\<rparr>)))"
    by (intro preserves_bind preserves_fetch_model_files assms(1,2))
       (simp add: preserves_def assms(3))
  ultimately show ?thesis
    unfolding load_smpl_models_def by (rule preserves_if)
qed

lemma preserves_download_input_images:
  assumes "\<And>w x. f (w\<lparr>fs := x\<rparr>) = f w" and "\<And>w x. f (w\<lparr>s3_get_calls := x\<rparr>) = f w"
  shows "preserves f (download_input_images en cfg session_id avatar_key garment_key temp_dir)"
  unfolding download_input_images_def Let_def
  by (intro preserves_bind preserves_download_file preserves_lift preserves_ret assms)

lemma preserves_fit_body_mesh:
  assumes "\<And>w x. f (w\<lparr>fs := x\<rparr>) = f w" and "\<And>w x. f (w\<lparr>s3_get_calls := x\<rparr>) = f w"
      and "\<And>w x. f (w\<lparr>smpl_models := x\<rparr>) = f w"
  shows "preserves f (fit_body_mesh en cfg image_path pose_results temp_dir)"
  unfolding fit_body_mesh_def
  by (intro preserves_bind preserves_load_smpl_models preserves_ret assms)

lemma preserves_generate_guidance_assets:
  assumes "\<And>w x. f (w\<lparr>fs := x\<rparr>) = f w"
  shows "preserves f (generate_guidance_assets en avatar_path garment_path pose_results
                        mesh_results temp_dir)"
proof (cases "cv2_imread en avatar_path")
  case None
  then show ?thesis by (simp add: generate_guidance_assets_def preserves_raise)
next
  case (Some shape)
  obtain height width where "shape = (height, width)" by (cases shape)
  with Some show ?thesis
    unfolding generate_guidance_assets_def Let_def
    by simp (intro preserves_bind preserves_imwrite preserves_lift preserves_write_file
               preserves_ret assms)
qed

lemma preserves_upload_items:
  assumes "\<And>w x. f (w\<lparr>s3_objects := x\<rparr>) = f w"
  shows "preserves f (upload_items en cfg session_id items s3_keys)"
proof (induction items arbitrary: s3_keys)
  case Nil
  show ?case by (simp add: preserves_ret)
next
  case (Cons item rest)
  obtain asset_type local_path where "item = (asset_type, local_path)" by (cases item)
  then show ?case
    by (simp add: Let_def) (intro preserves_bind preserves_upload_file Cons.IH assms)
qed

lemma preserves_upload_guidance_assets:
  assumes "\<And>w x. f (w\<lparr>s3_objects := x\<rparr>) = f w"
  shows "preserves f (upload_guidance_assets en cfg session_id guidance_assets temp_dir)"
  by (simp add: upload_guidance_assets_def preserves_upload_items assms)

lemma completion_event_not_failure:
  "\<not> is_failure_event (completion_event en cfg session_id user_id s3_keys mesh_results)"
  by (simp add: is_failure_event_def completion_event_def)

lemma error_event_is_failure:
  "is_failure_event (error_event en cfg session_id user_id error_message)"
  by (simp add: is_failure_event_def error_event_def)

lemma preserves_publish_completion_event:
  assumes "\<And>w x. f (w\<lparr>bus_calls := x\<rparr>) = f w"
  shows "preserves f (publish_completion_event en cfg session_id user_id s3_keys mesh_results)"
  unfolding publish_completion_event_def
  by (intro preserves_bind preserves_put_events_call assms)
     (simp add: preserves_raise preserves_ret)

lemma preserves_failure_calls_publish_completion_event:
  "preserves failure_calls
     (publish_completion_event en cfg session_id user_id s3_keys mesh_results)"
  unfolding publish_completion_event_def
  by (intro preserves_bind preserves_failure_calls_put_events_call completion_event_not_failure)
     (simp add: preserves_raise preserves_ret)

text \<open>Up to the end of step 6, the statistics and the failure-event calls are as the
  session found them.\<close>

lemma watched_makedirs: "preserves watched (makedirs en p)"
  by (intro preserves_pair preserves_makedirs) simp_all

lemma watched_download_input_images:
  "preserves watched (download_input_images en cfg session_id avatar_key garment_key temp_dir)"
  by (intro preserves_pair preserves_download_input_images) simp_all

lemma watched_fit_body_mesh:
  "preserves watched (fit_body_mesh en cfg image_path pose_results temp_dir)"
  by (intro preserves_pair preserves_fit_body_mesh) simp_all

lemma watched_generate_guidance_assets:
  "preserves watched (generate_guidance_assets en avatar_path garment_path pose_results
                        mesh_results temp_dir)"
  by (intro preserves_pair preserves_generate_guidance_assets) simp_all

lemma watched_upload_guidance_assets:
  "preserves watched (upload_guidance_assets en cfg session_id guidance_assets temp_dir)"
  by (intro preserves_pair preserves_upload_guidance_assets) simp_all

lemma watched_publish_completion_event:
  "preserves watched (publish_completion_event en cfg session_id user_id s3_keys mesh_results)"
  by (intro preserves_pair preserves_publish_completion_event
        preserves_failure_calls_publish_completion_event) simp_all

section \<open>The outcome of the pipeline\<close>

lemma before_char_eq:
  assumes "c \<notin> set a" and "c \<notin> set b" and "a @ c # x = b @ c # y"
  shows "a = b"
proof -
  have "takeWhile (\<lambda>d. d \<noteq> c) (a @ c # x) = a"
    using assms(1) by (auto simp: takeWhile_tail)
  moreover have "takeWhile (\<lambda>d. d \<noteq> c) (b @ c # y) = b"
    using assms(2) by (auto simp: takeWhile_tail)
  ultimately show ?thesis using assms(3) by simp
qed

lemma s3_key_of_kind_inj:
  "CHR ''/'' \<notin> set k1 \<Longrightarrow> CHR ''/'' \<notin> set k2 \<Longrightarrow>
     s3_key_of k1 sid1 t1 lp1 = s3_key_of k2 sid2 t2 lp2 \<Longrightarrow> k1 = k2"
  unfolding s3_key_of_def using before_char_eq [of "CHR ''/''" k1 k2] by simp

lemma s3_key_of_nonempty: "s3_key_of k sid t lp \<noteq> []"
  by (simp add: s3_key_of_def)

lemma five_keys_kinds:
  "map fst (five_keys en session_id temp_dir) = [''depth'', ''normals'', ''pose'', ''segments'', ''prompt'']"
  by (simp add: five_keys_def)

lemma five_keys_distinct: "distinct (map snd (five_keys en session_id temp_dir))"
proof -
  have ne: "\<And>k1 k2 ta tb pa pb. CHR ''/'' \<notin> set k1 \<Longrightarrow> CHR ''/'' \<notin> set k2 \<Longrightarrow> k1 \<noteq> k2 \<Longrightarrow>
      s3_key_of k1 session_id ta pa \<noteq> s3_key_of k2 session_id tb pb"
    using s3_key_of_kind_inj by blast
  show ?thesis
    by (simp add: five_keys_def ne)
qed

lemma five_keys_nonempty: "[] \<notin> set (map snd (five_keys en session_id temp_dir))"
  using s3_key_of_nonempty by (simp add: five_keys_def) metis

lemma generate_guidance_assets_result:
  assumes "generate_guidance_assets en avatar_path garment_path pose_results mesh_results temp_dir w
           = (Inr guidance_assets, w')"
  shows "guidance_assets =
           [(''depth'', temp_dir @ ''/depth.png''), (''normals'', temp_dir @ ''/normals.png''),
            (''pose'', temp_dir @ ''/pose.png''), (''segments'', temp_dir @ ''/segments.png''),
            (''prompt'', temp_dir @ ''/prompt.txt'')]"
proof (cases "cv2_imread en avatar_path")
  case None
  with assms show ?thesis by (simp add: generate_guidance_assets_def raise_def)
next
  case (Some shape)
  obtain height width where "shape = (height, width)" by (cases shape)
  with Some assms
  have "bind (imwrite en (temp_dir @ ''/depth.png'')) (\<lambda>u.
        bind (imwrite en (temp_dir @ ''/normals.png'')) (\<lambda>u.
        bind (imwrite en (temp_dir @ ''/pose.png'')) (\<lambda>u.
        bind (imwrite en (temp_dir @ ''/segments.png'')) (\<lambda>u.
        bind (lift (generate_text_prompt en mesh_results garment_path)) (\<lambda>prompt.
        bind (write_file en (temp_dir @ ''/prompt.txt'') prompt) (\<lambda>u.
        ret [(''depth'', temp_dir @ ''/depth.png''), (''normals'', temp_dir @ ''/normals.png''),
             (''pose'', temp_dir @ ''/pose.png''), (''segments'', temp_dir @ ''/segments.png''),
             (''prompt'', temp_dir @ ''/prompt.txt'')])))))) w = (Inr guidance_assets, w')"
    by (simp add: generate_guidance_assets_def Let_def dict_set_def)
  then show ?thesis
    by (elim bind_cases) (simp_all add: ret_def)
qed

text \<open>The keys \<^verbatim>\<open>_upload_guidance_assets\<close> returns and the objects it has put, in
  the order of the items.\<close>

lemma upload_items_result:
  "upload_items en cfg session_id items s3_keys w = (Inr keys, w') \<Longrightarrow>
     keys = foldl (\<lambda>acc (asset_type, local_path).
                     dict_set acc asset_type
                       (s3_key_of asset_type session_id
                          (py_int (time_at en (AtUpload asset_type))) local_path))
              s3_keys items
   \<and> s3_objects w' = s3_objects w
       @ map (\<lambda>(asset_type, local_path).
                (bucket_guidance cfg,
                 s3_key_of asset_type session_id
                   (py_int (time_at en (AtUpload asset_type))) local_path)) items"
proof (induction items arbitrary: s3_keys w)
  case Nil
  then show ?case by (simp add: ret_def)
next
  case (Cons item rest)
  obtain asset_type local_path where item: "item = (asset_type, local_path)" by (cases item)
  let ?key = "s3_key_of asset_type session_id (py_int (time_at en (AtUpload asset_type))) local_path"
  from Cons.prems item
  have "bind (upload_file en local_path (bucket_guidance cfg) ?key (get_content_type local_path))
          (\<lambda>u. upload_items en cfg session_id rest (dict_set s3_keys asset_type ?key)) w
        = (Inr keys, w')"
    by (simp add: Let_def)
  then obtain u w1 where
    up: "upload_file en local_path (bucket_guidance cfg) ?key (get_content_type local_path) w
          = (Inr u, w1)"
    and rest: "upload_items en cfg session_id rest (dict_set s3_keys asset_type ?key) w1
          = (Inr keys, w')"
    by (cases rule: bind_cases) auto
  from upload_file_cases [OF up]
  have "s3_objects w1 = s3_objects w @ [(bucket_guidance cfg, ?key)]" by auto
  with Cons.IH [OF rest] item show ?case by simp
qed

lemma upload_five_result:
  assumes "upload_guidance_assets en cfg session_id
             [(''depth'', temp_dir @ ''/depth.png''), (''normals'', temp_dir @ ''/normals.png''),
              (''pose'', temp_dir @ ''/pose.png''), (''segments'', temp_dir @ ''/segments.png''),
              (''prompt'', temp_dir @ ''/prompt.txt'')]
             temp_dir' w = (Inr keys, w')"
  shows "keys = five_keys en session_id temp_dir"
    and "s3_objects w' = s3_objects w
           @ map (\<lambda>(asset_type, key). (bucket_guidance cfg, key)) (five_keys en session_id temp_dir)"
  using upload_items_result [OF assms [unfolded upload_guidance_assets_def]]
  by (simp_all add: dict_set_def five_keys_def)

text \<open>The end of the \<^verbatim>\<open>try\<close> block counts the session; it returns the success
  result unless one of its two metrics raises an error that is no \<^verbatim>\<open>Exception\<close>.\<close>

lemma finish_success_apply:
  "finish_success en session_id t_start s3_keys mesh_results w =
     (let w1 = w\<lparr>stats := (stats w)\<lparr>processed_count := processed_count (stats w) + 1,
                                     last_activity := time_at en AtActivity\<rparr>\<rparr>;
          sm1 = send_metrics en ''SMPL.ProcessingSuccess'' 1 [(''SessionId'', session_id)] w1
      in case fst sm1 of
           Inl e \<Rightarrow> (Inl e, snd sm1)
         | Inr u \<Rightarrow>
            (let sm2 = send_metrics en ''SMPL.ProcessingTime'' (time_at en AtEnd - t_start)
                         [(''SessionId'', session_id)] (snd sm1)
             in case fst sm2 of
                  Inl e \<Rightarrow> (Inl e, snd sm2)
                | Inr u \<Rightarrow>
                   (Inr \<lparr>r_status = ''success'', r_session_id = session_id,
                          r_processing_time = time_at en AtEnd - t_start,
                          r_guidance_assets = s3_keys, r_smpl_metadata = mesh_results\<rparr>,
                    snd sm2)))"
  by (simp add: finish_success_def bind_def modify_def ret_def Let_def
      split: prod.splits sum.splits del: py_in.simps)

lemma send_metrics_fields:
  "s3_objects (snd (send_metrics en metric_name val dimensions w)) = s3_objects w"
  "smpl_models (snd (send_metrics en metric_name val dimensions w)) = smpl_models w"
  "failure_calls (snd (send_metrics en metric_name val dimensions w)) = failure_calls w"
  by (simp_all add: send_metrics_eq Let_def split: option.splits del: py_in.simps)

lemma finish_success_outcome:
  assumes "finish_success en session_id t_start s3_keys mesh_results w = (r, w')"
  shows "stats w' = (stats w)\<lparr>processed_count := processed_count (stats w) + 1,
                               last_activity := time_at en AtActivity\<rparr>"
    and "failure_calls w' = failure_calls w"
    and "bus_calls w' = bus_calls w"
    and "s3_objects w' = s3_objects w"
    and "smpl_models w' = smpl_models w"
    and "r = Inr \<lparr>r_status = ''success'', r_session_id = session_id,
                   r_processing_time = time_at en AtEnd - t_start,
                   r_guidance_assets = s3_keys, r_smpl_metadata = mesh_results\<rparr>
         \<or> (\<exists>e. r = Inl e \<and> \<not> catchable e)"
proof -
  let ?w1 = "w\<lparr>stats := (stats w)\<lparr>processed_count := processed_count (stats w) + 1,
                                   last_activity := time_at en AtActivity\<rparr>\<rparr>"
  let ?sm1 = "send_metrics en ''SMPL.ProcessingSuccess'' 1 [(''SessionId'', session_id)] ?w1"
  let ?sm2 = "send_metrics en ''SMPL.ProcessingTime'' (time_at en AtEnd - t_start)
                [(''SessionId'', session_id)] (snd ?sm1)"
  let ?res = "\<lparr>r_status = ''success'', r_session_id = session_id,
                r_processing_time = time_at en AtEnd - t_start,
                r_guidance_assets = s3_keys, r_smpl_metadata = mesh_results\<rparr>"
  have w': "w' = snd ?sm1 \<or> w' = snd ?sm2"
    using assms by (auto simp: finish_success_apply Let_def split: sum.splits)
  have f1: "stats (snd ?sm1) = stats ?w1" "failure_calls (snd ?sm1) = failure_calls w"
      "bus_calls (snd ?sm1) = bus_calls w" "s3_objects (snd ?sm1) = s3_objects w"
      "smpl_models (snd ?sm1) = smpl_models w"
    by (simp_all only: telemetry_fields send_metrics_fields) simp_all
  have f2: "stats (snd ?sm2) = stats ?w1" "failure_calls (snd ?sm2) = failure_calls w"
      "bus_calls (snd ?sm2) = bus_calls w" "s3_objects (snd ?sm2) = s3_objects w"
      "smpl_models (snd ?sm2) = smpl_models w"
    by (simp_all only: telemetry_fields send_metrics_fields) simp_all
  from w' f1 f2
  show "stats w' = (stats w)\<lparr>processed_count := processed_count (stats w) + 1,
                               last_activity := time_at en AtActivity\<rparr>"
    and "failure_calls w' = failure_calls w"
    and "bus_calls w' = bus_calls w"
    and "s3_objects w' = s3_objects w"
    and "smpl_models w' = smpl_models w"
    by auto
  from send_metrics_outcome [of en "''SMPL.ProcessingSuccess''" 1 "[(''SessionId'', session_id)]" ?w1]
       send_metrics_outcome [of en "''SMPL.ProcessingTime''" "time_at en AtEnd - t_start"
          "[(''SessionId'', session_id)]" "snd ?sm1"] assms
  show "r = Inr ?res \<or> (\<exists>e. r = Inl e \<and> \<not> catchable e)"
    by (auto simp: finish_success_apply Let_def split: sum.splits)
qed


lemma process_from_pose_outcome:
  assumes "process_from_pose en cfg session_id user_id t_start temp_dir avatar_path garment_path
             pose_results w = (r, w')"
  shows "body_outcome en session_id t_start temp_dir w r w'"
  using assms [unfolded process_from_pose_def] watched_fit_body_mesh
proof (cases rule: preserves_bind_cases)
  case (raised e)
  then show ?thesis by (simp add: body_outcome_def)
next
  case (returned mesh_results wa)
  note a = returned
  from a(3) watched_generate_guidance_assets show ?thesis
  proof (cases rule: preserves_bind_cases)
    case (raised e)
    with a show ?thesis by (simp add: body_outcome_def)
  next
    case (returned guidance_assets wb)
    note b = returned
    note ga = generate_guidance_assets_result [OF b(1)]
    from b(3) watched_upload_guidance_assets show ?thesis
    proof (cases rule: preserves_bind_cases)
      case (raised e)
      with a b show ?thesis by (simp add: body_outcome_def)
    next
      case (returned s3_keys wc)
      note c = returned
      note keys = upload_five_result(1) [OF c(1) [unfolded ga]]
      from c(3) watched_publish_completion_event show ?thesis
      proof (cases rule: preserves_bind_cases)
        case (raised e)
        with a b c show ?thesis by (simp add: body_outcome_def)
      next
        case (returned u wd)
        note d = returned
        from finish_success_outcome [OF d(3)] a(2) b(2) c(2) d(2) keys
        show ?thesis by (auto simp: body_outcome_def)
      qed
    qed
  qed
qed

lemma process_try_outcome:
  assumes "process_try en cfg session_id user_id avatar_image_key garment_image_key t_start
             temp_dir w = (r, w')"
  shows "body_outcome en session_id t_start temp_dir w r w'"
  using assms [unfolded process_try_def] watched_makedirs
proof (cases rule: preserves_bind_cases)
  case (raised e)
  then show ?thesis by (simp add: body_outcome_def)
next
  case (returned u wa)
  note a = returned
  from a(3) watched_download_input_images show ?thesis
  proof (cases rule: preserves_bind_cases)
    case (raised e)
    with a show ?thesis by (simp add: body_outcome_def)
  next
    case (returned paths wb)
    note b = returned
    obtain avatar_path garment_path where paths: "paths = (avatar_path, garment_path)"
      by (cases paths)
    have lf: "preserves watched (lift (estimate_pose_romp en avatar_path temp_dir))"
      by (rule preserves_lift)
    from b(3) paths
    have "bind (lift (estimate_pose_romp en avatar_path temp_dir)) (\<lambda>pose_results.
            process_from_pose en cfg session_id user_id t_start temp_dir avatar_path garment_path
              pose_results) wb = (r, w')"
      by simp
    from this lf show ?thesis
    proof (cases rule: preserves_bind_cases)
      case (raised e)
      with a b show ?thesis by (simp add: body_outcome_def)
    next
      case (returned pose_results wc)
      from process_from_pose_outcome [OF returned(3)] returned(2) a(2) b(2)
      show ?thesis by (cases r) (simp_all add: body_outcome_def)
    qed
  qed
qed

text \<open>The \<^verbatim>\<open>except\<close> block counts the error, then raises the error it handles once
  the failure-event call is made, unless the metric or the event call raises an error
  that is no \<^verbatim>\<open>Exception\<close>.\<close>

lemma process_except_outcome:
  assumes "process_except en cfg session_id user_id e w = (r, w')"
  shows "stats w' = (stats w)\<lparr>error_count := error_count (stats w) + 1\<rparr>
       \<and> ((r = Inl e
            \<and> failure_calls w' = failure_calls w
                 @ [(error_event en cfg session_id user_id (exn_msg e),
                     put_events en (error_event en cfg session_id user_id (exn_msg e)))])
          \<or> (\<exists>e'. r = Inl e' \<and> \<not> catchable e'
                \<and> at_most_one_failure_call en cfg session_id user_id w w'))"
proof -
  let ?w1 = "w\<lparr>stats := (stats w)\<lparr>error_count := error_count (stats w) + 1\<rparr>\<rparr>"
  let ?sm = "send_metrics en ''SMPL.ProcessingError'' 1
               [(''SessionId'', session_id), (''ErrorType'', exn_type e)] ?w1"
  let ?pe = "publish_error_event en cfg session_id user_id (exn_msg e) (snd ?sm)"
  let ?ev = "error_event en cfg session_id user_id (exn_msg e)"
  have s1: "stats (snd ?sm) = (stats w)\<lparr>error_count := error_count (stats w) + 1\<rparr>"
    and f1: "failure_calls (snd ?sm) = failure_calls w"
    by (simp_all add: telemetry_fields failure_calls_def)
  have s2: "stats (snd ?pe) = (stats w)\<lparr>error_count := error_count (stats w) + 1\<rparr>"
    and f2: "failure_calls (snd ?pe) = failure_calls w @ [(?ev, put_events en ?ev)]"
    by (simp_all add: telemetry_fields failure_calls_def error_event_is_failure)
  from send_metrics_outcome [of en "''SMPL.ProcessingError''" 1
      "[(''SessionId'', session_id), (''ErrorType'', exn_type e)]" ?w1]
  show ?thesis
  proof
    assume sm: "fst ?sm = Inr ()"
    from publish_error_event_outcome [of en cfg session_id user_id "exn_msg e" "snd ?sm"]
    show ?thesis
    proof
      assume pe: "fst ?pe = Inr ()"
      from assms have "r = Inl e" "w' = snd ?pe"
        by (simp_all add: process_except_apply Let_def sm pe)
      with s2 f2 show ?thesis by simp
    next
      assume "\<exists>e'. fst ?pe = Inl e' \<and> \<not> catchable e'"
      then obtain e' where pe: "fst ?pe = Inl e'" and nc: "\<not> catchable e'" by blast
      from assms have "r = Inl e'" "w' = snd ?pe"
        by (simp_all add: process_except_apply Let_def sm pe)
      with s2 f2 nc show ?thesis
        by (auto simp: at_most_one_failure_call_def)
    qed
  next
    assume "\<exists>e'. fst ?sm = Inl e' \<and> \<not> catchable e'"
    then obtain e' where sm: "fst ?sm = Inl e'" and nc: "\<not> catchable e'" by blast
    from assms have "r = Inl e'" "w' = snd ?sm"
      by (simp_all add: process_except_apply Let_def sm)
    with s1 f1 nc show ?thesis
      by (auto simp: at_most_one_failure_call_def)
  qed
qed

lemma try_finally_cases:
  assumes "try_finally body fin w = (r, w')"
  obtains r2 w2 where "body w = (r2, w2)" and "w' = snd (fin w2)"
      and "r = r2 \<or> (\<exists>e. r = Inl e \<and> fst (fin w2) = Inl e)"
  using assms
  by (cases "body w"; cases "fin (snd (body w))")
     (auto simp: try_finally_def split: sum.splits)

lemma failure_calls_cleanup:
  "failure_calls (snd (cleanup_temp_files en temp_dir w)) = failure_calls w"
  by (simp add: failure_calls_def telemetry_fields)

text \<open>The three outcomes of \<^verbatim>\<open>process_image\<close>.\<close>

lemma process_image_outcome:
  assumes "process_image en cfg session_id user_id avatar_image_key garment_image_key w = (r, w')"
  shows "case r of
           Inr res \<Rightarrow>
             r_status res = ''success''
           \<and> r_session_id res = session_id
           \<and> r_processing_time res = time_at en AtEnd - time_at en AtStart
           \<and> r_guidance_assets res = five_keys en session_id (workspace session_id)
           \<and> stats w' = (stats w)\<lparr>processed_count := processed_count (stats w) + 1,
                                   last_activity := time_at en AtActivity\<rparr>
           \<and> failure_calls w' = failure_calls w
         | Inl e \<Rightarrow>
             if catchable e
             then stats w' = (stats w)\<lparr>error_count := error_count (stats w) + 1\<rparr>
                \<and> failure_calls w' = failure_calls w
                     @ [(error_event en cfg session_id user_id (exn_msg e),
                         put_events en (error_event en cfg session_id user_id (exn_msg e)))]
             else at_most_one_failure_call en cfg session_id user_id w w'"
proof -
  let ?P = "\<lambda>r w'. case r of
           Inr res \<Rightarrow>
             r_status res = ''success''
           \<and> r_session_id res = session_id
           \<and> r_processing_time res = time_at en AtEnd - time_at en AtStart
           \<and> r_guidance_assets res = five_keys en session_id (workspace session_id)
           \<and> stats w' = (stats w)\<lparr>processed_count := processed_count (stats w) + 1,
                                   last_activity := time_at en AtActivity\<rparr>
           \<and> failure_calls w' = failure_calls w
         | Inl e \<Rightarrow>
             if catchable e
             then stats w' = (stats w)\<lparr>error_count := error_count (stats w) + 1\<rparr>
                \<and> failure_calls w' = failure_calls w
                     @ [(error_event en cfg session_id user_id (exn_msg e),
                         put_events en (error_event en cfg session_id user_id (exn_msg e)))]
             else at_most_one_failure_call en cfg session_id user_id w w'"
  let ?body = "process_try en cfg session_id user_id avatar_image_key garment_image_key
                 (time_at en AtStart) (workspace session_id)"
  from assms [unfolded process_image_def Let_def workspace_def [symmetric]]
  obtain r2 w2 where
    h: "try_except ?body (process_except en cfg session_id user_id) w = (r2, w2)"
    and w': "w' = snd (cleanup_temp_files en (workspace session_id) w2)"
    and r: "r = r2 \<or> (\<exists>e. r = Inl e
              \<and> fst (cleanup_temp_files en (workspace session_id) w2) = Inl e)"
    by (rule try_finally_cases)
  obtain r1 w1 where t: "?body w = (r1, w1)" by (cases "?body w")
  note b = process_try_outcome [OF t, unfolded body_outcome_def]
  have handled: "?P r2 w2"
  proof (cases r1)
    case (Inr res)
    with h t have "r2 = Inr res" "w2 = w1" by (simp_all add: try_except_def)
    with b Inr show ?thesis by simp
  next
    case (Inl e)
    show ?thesis
    proof (cases "catchable e")
      case False
      with h t Inl have "r2 = Inl e" "w2 = w1" by (simp_all add: try_except_def)
      with b Inl False show ?thesis by (simp add: at_most_one_failure_call_def)
    next
      case True
      with h t Inl have x: "process_except en cfg session_id user_id e w1 = (r2, w2)"
        by (simp add: try_except_def)
      from b Inl True have k: "stats w1 = stats w" "failure_calls w1 = failure_calls w"
        by auto
      from process_except_outcome [OF x] k True show ?thesis
        by (auto simp: at_most_one_failure_call_def)
    qed
  qed
  have st: "stats w' = stats w2" and fc: "failure_calls w' = failure_calls w2"
    by (simp_all add: w' telemetry_fields failure_calls_cleanup)
  from r show ?thesis
  proof
    assume "r = r2"
    with handled st fc show ?thesis
      by (auto simp: at_most_one_failure_call_def split: sum.splits if_splits)
  next
    assume "\<exists>e. r = Inl e \<and> fst (cleanup_temp_files en (workspace session_id) w2) = Inl e"
    then obtain e where e: "r = Inl e"
      and c: "fst (cleanup_temp_files en (workspace session_id) w2) = Inl e"
      by blast
    from cleanup_temp_files_outcome [of en "workspace session_id" w2] c
    have nc: "\<not> catchable e" by auto
    from handled have "at_most_one_failure_call en cfg session_id user_id w w2"
      by (auto simp: at_most_one_failure_call_def split: sum.splits if_splits)
    with e nc fc show ?thesis by (simp add: at_most_one_failure_call_def)
  qed
qed

section \<open>Success result or failure event\<close>

lemma failure_events_append:
  "failure_calls w' = failure_calls w @ [(ev, outcome)] \<Longrightarrow>
     failure_events w' = failure_events w @ (if outcome = Inr 0 then [ev] else [])"
  by (simp add: failure_events_def)

lemma failure_events_same:
  "failure_calls w' = failure_calls w \<Longrightarrow> failure_events w' = failure_events w"
  by (simp add: failure_events_def)

text \<open>A session whose first download fails with an \<^verbatim>\<open>Exception\<close>, the telemetry
  and the cleanup raising nothing else: the error raised, the statistics and the
  \<^verbatim>\<open>put_events\<close> calls.\<close>

lemma process_image_download_fails_fields:
  assumes "os_makedirs en (workspace session_id) = None"
      and "s3_download en (bucket_uploads cfg) avatar_image_key (workspace session_id @ ''/avatar.jpg'')
           = Some e"
      and "catchable e"
      and "\<forall>m e'. put_metric_data en m = Some e' \<longrightarrow> catchable e'"
      and "\<forall>ev e'. is_failure_event ev \<longrightarrow> put_events en ev = Inl e' \<longrightarrow> catchable e'"
      and "\<forall>e'. shutil_rmtree en (workspace session_id) = Some e' \<longrightarrow> catchable e'"
  shows "fst (process_image en cfg session_id user_id avatar_image_key garment_image_key w) = Inl e"
    and "stats (snd (process_image en cfg session_id user_id avatar_image_key garment_image_key w))
         = (stats w)\<lparr>error_count := error_count (stats w) + 1\<rparr>"
    and "bus_calls (snd (process_image en cfg session_id user_id avatar_image_key garment_image_key w))
         = bus_calls w @ [(error_event en cfg session_id user_id (exn_msg e),
                           put_events en (error_event en cfg session_id user_id (exn_msg e)))]"
  by (simp_all add: process_image_download_fails [OF assms] telemetry_fields add_path_def)

text \<open>A session interrupted during its first download by an error that is no
  \<^verbatim>\<open>Exception\<close>: the \<^verbatim>\<open>except\<close> block is skipped.\<close>

lemma process_image_download_interrupted:
  assumes "os_makedirs en (workspace session_id) = None"
      and "s3_download en (bucket_uploads cfg) avatar_image_key (workspace session_id @ ''/avatar.jpg'')
           = Some e"
      and "\<not> catchable e"
      and "\<forall>e'. shutil_rmtree en (workspace session_id) = Some e' \<longrightarrow> catchable e'"
  shows "fst (process_image en cfg session_id user_id avatar_image_key garment_image_key w) = Inl e"
    and "stats (snd (process_image en cfg session_id user_id avatar_image_key garment_image_key w))
         = stats w"
    and "bus_calls (snd (process_image en cfg session_id user_id avatar_image_key garment_image_key w))
         = bus_calls w"
proof -
  let ?w0 = "(add_path (workspace session_id) w)\<lparr>s3_get_calls := s3_get_calls w
               @ [(bucket_uploads cfg, avatar_image_key, workspace session_id @ ''/avatar.jpg'')]\<rparr>"
  have body: "try_except
          (process_try en cfg session_id user_id avatar_image_key garment_image_key
             (time_at en AtStart) (workspace session_id))
          (process_except en cfg session_id user_id) w = (Inl e, ?w0)"
    by (simp add: try_except_def process_try_download_fails [OF assms(1,2)] assms(3))
  have cl: "fst (cleanup_temp_files en (workspace session_id) ?w0) = Inr ()"
    by (rule cleanup_temp_files_returns [OF assms(4)])
  have run: "process_image en cfg session_id user_id avatar_image_key garment_image_key w
      = (Inl e, snd (cleanup_temp_files en (workspace session_id) ?w0))"
    unfolding process_image_def Let_def workspace_def [symmetric]
    using body cl by (intro prod_eqI) (simp_all add: try_finally_fst try_finally_snd)
  show "fst (process_image en cfg session_id user_id avatar_image_key garment_image_key w) = Inl e"
    by (simp add: run)
  show "stats (snd (process_image en cfg session_id user_id avatar_image_key garment_image_key w))
         = stats w"
    by (simp add: run telemetry_fields add_path_def)
  show "bus_calls (snd (process_image en cfg session_id user_id avatar_image_key garment_image_key w))
         = bus_calls w"
    by (simp add: run telemetry_fields add_path_def)
qed

text \<open>
  C1, as stated, fails: the failure event is published best effort.  Here the avatar
  download fails and the event bus is unreachable: \<^verbatim>\<open>process_image\<close> raises, and no
  failure event has been emitted.
\<close>

theorem no_failure_event_counterexample:
  "fst (process_image no_s3_no_bus_env default_config ''S1'' ''U1'' ''avatars/a.jpg''
          ''garments/g.jpg'' (init_world 0)) = Inl conn_error
   \<and> failure_events (snd (process_image no_s3_no_bus_env default_config ''S1'' ''U1''
          ''avatars/a.jpg'' ''garments/g.jpg'' (init_world 0))) = []"
proof -
  let ?run = "process_image no_s3_no_bus_env default_config ''S1'' ''U1'' ''avatars/a.jpg''
                ''garments/g.jpg'' (init_world 0)"
  have f: "fst ?run = Inl conn_error"
    by (rule process_image_download_fails_fields(1))
       (simp_all add: no_s3_no_bus_env_calls conn_error_catchable)
  have "bus_calls (snd ?run) = bus_calls (init_world 0)
          @ [(error_event no_s3_no_bus_env default_config ''S1'' ''U1'' (exn_msg conn_error),
              put_events no_s3_no_bus_env
                (error_event no_s3_no_bus_env default_config ''S1'' ''U1'' (exn_msg conn_error)))]"
    by (rule process_image_download_fails_fields(3))
       (simp_all add: no_s3_no_bus_env_calls conn_error_catchable)
  then have "failure_events (snd ?run) = []"
    by (simp add: failure_events_def failure_calls_def no_s3_no_bus_env_calls init_world_def)
  with f show ?thesis by simp
qed

text \<open>
  C1, amended.  \<^verbatim>\<open>process_image\<close> ends in one of three ways.  It returns a result
  with status success whose guidance assets are the five kinds depth, normals, pose,
  segments and prompt, each with a non-empty key and no two keys equal, having made no
  failure-event call.  Or it raises an \<^verbatim>\<open>Exception\<close> and has made exactly one
  failure-event call, for this session and with the message of the error raised; the
  failure event is emitted when that call returns with no failed entry, and not emitted
  when it raises or reports a failed entry.  Or it raises an error that is no
  \<^verbatim>\<open>Exception\<close> (the \<^verbatim>\<open>SystemExit\<close> of the shutdown signal handler, a
  \<^verbatim>\<open>KeyboardInterrupt\<close>), which the \<^verbatim>\<open>except Exception\<close> block lets pass: then it
  has made at most one failure-event call for this session.
\<close>

theorem process_image_success_or_failure_call:
  assumes "process_image en cfg session_id user_id avatar_image_key garment_image_key w = (r, w')"
  shows "case r of
           Inr res \<Rightarrow>
             r_status res = ''success''
           \<and> map fst (r_guidance_assets res) = [''depth'', ''normals'', ''pose'', ''segments'', ''prompt'']
           \<and> distinct (map snd (r_guidance_assets res))
           \<and> [] \<notin> set (map snd (r_guidance_assets res))
           \<and> failure_calls w' = failure_calls w
           \<and> failure_events w' = failure_events w
         | Inl e \<Rightarrow>
             if catchable e
             then failure_calls w' = failure_calls w
                    @ [(error_event en cfg session_id user_id (exn_msg e),
                        put_events en (error_event en cfg session_id user_id (exn_msg e)))]
                \<and> failure_events w' = failure_events w
                    @ (if put_events en (error_event en cfg session_id user_id (exn_msg e)) = Inr 0
                       then [error_event en cfg session_id user_id (exn_msg e)] else [])
             else failure_calls w' = failure_calls w
                \<or> (\<exists>msg. failure_calls w' = failure_calls w
                       @ [(error_event en cfg session_id user_id msg,
                           put_events en (error_event en cfg session_id user_id msg))])"
proof (cases r)
  case (Inr res)
  with process_image_outcome [OF assms]
  have s: "r_status res = ''success''"
    and g: "r_guidance_assets res = five_keys en session_id (workspace session_id)"
    and c: "failure_calls w' = failure_calls w"
    by simp_all
  have k: "map fst (r_guidance_assets res) = [''depth'', ''normals'', ''pose'', ''segments'', ''prompt'']"
    by (simp only: g five_keys_kinds)
  have d: "distinct (map snd (r_guidance_assets res))"
    by (simp only: g five_keys_distinct)
  have n: "[] \<notin> set (map snd (r_guidance_assets res))"
    by (simp only: g five_keys_nonempty not_False_eq_True)
  from Inr s k d n c failure_events_same [OF c] show ?thesis
    by (simp del: distinct_map set_map)
next
  case (Inl e)
  show ?thesis
  proof (cases "catchable e")
    case True
    with Inl process_image_outcome [OF assms]
    have c: "failure_calls w' = failure_calls w
                 @ [(error_event en cfg session_id user_id (exn_msg e),
                     put_events en (error_event en cfg session_id user_id (exn_msg e)))]"
      by simp
    from failure_events_append [OF c] Inl True c show ?thesis by simp
  next
    case False
    with Inl process_image_outcome [OF assms] show ?thesis
      by (simp add: at_most_one_failure_call_def)
  qed
qed

text \<open>With the object store unreachable the session raises the connection error and
  the one failure event is emitted; with a shutdown signal arriving during the first
  download it raises \<^verbatim>\<open>SystemExit\<close> and no failure-event call is made.\<close>

theorem process_image_success_or_failure_call_witness:
  "fst (process_image no_s3_env default_config ''S1'' ''U1'' ''avatars/a.jpg'' ''garments/g.jpg''
          (init_world 0)) = Inl conn_error
   \<and> catchable conn_error
   \<and> failure_events (snd (process_image no_s3_env default_config ''S1'' ''U1'' ''avatars/a.jpg''
          ''garments/g.jpg'' (init_world 0)))
     = [error_event no_s3_env default_config ''S1'' ''U1'' (exn_msg conn_error)]
   \<and> fst (process_image sigterm_env default_config ''S1'' ''U1'' ''avatars/a.jpg'' ''garments/g.jpg''
          (init_world 0)) = Inl system_exit
   \<and> \<not> catchable system_exit
   \<and> failure_calls (snd (process_image sigterm_env default_config ''S1'' ''U1'' ''avatars/a.jpg''
          ''garments/g.jpg'' (init_world 0))) = []"
proof -
  let ?run = "process_image no_s3_env default_config ''S1'' ''U1'' ''avatars/a.jpg''
                ''garments/g.jpg'' (init_world 0)"
  let ?int = "process_image sigterm_env default_config ''S1'' ''U1'' ''avatars/a.jpg''
                ''garments/g.jpg'' (init_world 0)"
  have f: "fst ?run = Inl conn_error"
    by (rule process_image_download_fails_fields(1))
       (simp_all add: no_s3_env_calls conn_error_catchable)
  have i: "failure_events (init_world 0) = []"
    by (simp add: failure_events_def failure_calls_def init_world_def)
  have "?run = (fst ?run, snd ?run)" by simp
  from process_image_success_or_failure_call [OF this]
  have e: "failure_events (snd ?run)
      = [error_event no_s3_env default_config ''S1'' ''U1'' (exn_msg conn_error)]"
    by (simp add: f no_s3_env_calls i conn_error_catchable)
  have nc: "\<not> catchable system_exit"
    by (simp add: catchable_def system_exit_def)
  have g: "fst ?int = Inl system_exit"
    by (rule process_image_download_interrupted(1))
       (simp_all add: sigterm_env_def ok_env_def nc)
  have "bus_calls (snd ?int) = bus_calls (init_world 0)"
    by (rule process_image_download_interrupted(3) [where e = system_exit])
       (simp_all add: sigterm_env_def ok_env_def nc)
  then have n: "failure_calls (snd ?int) = []"
    by (simp add: failure_calls_def init_world_def)
  from f conn_error_catchable e g nc n show ?thesis by blast
qed

section \<open>Processing statistics\<close>

text \<open>
  After \<^verbatim>\<open>process_image\<close> returns, \<open>processed_count\<close> is one more, \<open>last_activity\<close>
  is the clock reading taken at line 220 and \<open>error_count\<close> is as before; after it
  raises an \<^verbatim>\<open>Exception\<close>, \<open>error_count\<close> is one more and every other statistic,
  \<open>last_activity\<close> included, is as before.
\<close>

lemma process_image_statistics:
  assumes "process_image en cfg session_id user_id avatar_image_key garment_image_key w = (r, w')"
  shows "case r of
           Inr res \<Rightarrow> stats w' = (stats w)\<lparr>processed_count := processed_count (stats w) + 1,
                                               last_activity := time_at en AtActivity\<rparr>
         | Inl e \<Rightarrow> catchable e \<longrightarrow>
                      stats w' = (stats w)\<lparr>error_count := error_count (stats w) + 1\<rparr>"
  using process_image_outcome [OF assms] by (auto split: sum.splits)

text \<open>
  C3.  The counters move as claimed, but the failure path does not touch
  \<open>last_activity\<close>: a session that fails when the clock reads 100, on a processor
  started at 0, leaves \<open>last_activity\<close> at 0.
\<close>

theorem last_activity_stale_after_failure:
  "fst (process_image no_s3_env default_config ''S1'' ''U1'' ''avatars/a.jpg'' ''garments/g.jpg''
          (init_world 0)) = Inl conn_error
   \<and> stats (snd (process_image no_s3_env default_config ''S1'' ''U1'' ''avatars/a.jpg''
          ''garments/g.jpg'' (init_world 0)))
     = \<lparr>processed_count = 0, error_count = 1, start_time = 0, last_activity = 0\<rparr>
   \<and> time_at no_s3_env AtStart = 100
   \<and> time_at no_s3_env AtErrorEvent = 100"
proof -
  let ?run = "process_image no_s3_env default_config ''S1'' ''U1'' ''avatars/a.jpg''
                ''garments/g.jpg'' (init_world 0)"
  have f: "fst ?run = Inl conn_error"
    by (rule process_image_download_fails_fields(1))
       (simp_all add: no_s3_env_calls conn_error_catchable)
  have "stats (snd ?run)
      = (stats (init_world 0))\<lparr>error_count := error_count (stats (init_world 0)) + 1\<rparr>"
    by (rule process_image_download_fails_fields(2) [where e = conn_error])
       (simp_all add: no_s3_env_calls conn_error_catchable)
  also have "\<dots> = \<lparr>processed_count = 0, error_count = 1, start_time = 0, last_activity = 0\<rparr>"
    by (simp add: init_world_def)
  finally have s: "stats (snd ?run)
      = \<lparr>processed_count = 0, error_count = 1, start_time = 0, last_activity = 0\<rparr>" .
  have t: "time_at no_s3_env AtStart = 100 \<and> time_at no_s3_env AtErrorEvent = 100"
    by (simp add: no_s3_env_def ok_env_def)
  from f s t show ?thesis by blast
qed

section \<open>The pipeline after pose estimation\<close>





















section \<open>Failures of the telemetry channels\<close>

lemma simD:
  "sim m m' \<Longrightarrow> same_but_telemetry w w' \<Longrightarrow>
     fst (m w) = fst (m' w') \<and> same_but_telemetry (snd (m w)) (snd (m' w'))"
  by (simp add: sim_def)

lemma sim_ret: "sim (ret x) (ret x)"
  by (simp add: sim_def ret_def)

lemma sim_raise: "sim (raise e) (raise e)"
  by (simp add: sim_def raise_def)

lemma sim_lift: "sim (lift r) (lift r)"
  by (simp add: sim_def lift_def)

lemma sim_bind:
  assumes "sim m m'" and "\<And>a. sim (f a) (f' a)"
  shows "sim (bind m f) (bind m' f')"
  unfolding sim_def
proof (intro allI impI)
  fix w w'
  assume r: "same_but_telemetry w w'"
  obtain r1 w1 where m: "m w = (r1, w1)" by (cases "m w")
  obtain r1' w1' where m': "m' w' = (r1', w1')" by (cases "m' w'")
  from simD [OF assms(1) r] m m' have eq: "r1' = r1" and r1: "same_but_telemetry w1 w1'"
    by simp_all
  show "fst (bind m f w) = fst (bind m' f' w')
      \<and> same_but_telemetry (snd (bind m f w)) (snd (bind m' f' w'))"
  proof (cases r1)
    case (Inl e)
    with m m' eq r1 show ?thesis by (simp add: bind_def)
  next
    case (Inr a)
    with m m' eq simD [OF assms(2) r1, of a] show ?thesis by (simp add: bind_def)
  qed
qed

lemma sim_if:
  assumes "\<And>w w'. same_but_telemetry w w' \<Longrightarrow> c w = c w'" and "sim m1 m1'" and "sim m2 m2'"
  shows "sim (\<lambda>w. if c w then m1 w else m2 w) (\<lambda>w. if c w then m1' w else m2' w)"
  unfolding sim_def using assms(1) simD [OF assms(2)] simD [OF assms(3)] by auto

lemma sim_try_except:
  assumes "sim body body'" and "\<And>e. sim (handler e) (handler' e)"
  shows "sim (try_except body handler) (try_except body' handler')"
  unfolding sim_def
proof (intro allI impI)
  fix w w'
  assume r: "same_but_telemetry w w'"
  obtain r1 w1 where m: "body w = (r1, w1)" by (cases "body w")
  obtain r1' w1' where m': "body' w' = (r1', w1')" by (cases "body' w'")
  from simD [OF assms(1) r] m m' have eq: "r1' = r1" and r1: "same_but_telemetry w1 w1'"
    by simp_all
  show "fst (try_except body handler w) = fst (try_except body' handler' w')
      \<and> same_but_telemetry (snd (try_except body handler w)) (snd (try_except body' handler' w'))"
  proof (cases r1)
    case (Inl e)
    with m m' eq r1 simD [OF assms(2) r1, of e] show ?thesis by (simp add: try_except_def)
  next
    case (Inr a)
    with m m' eq r1 show ?thesis by (simp add: try_except_def)
  qed
qed

lemma sim_try_finally:
  assumes "sim body body'" and "sim fin fin'"
  shows "sim (try_finally body fin) (try_finally body' fin')"
  unfolding sim_def
proof (intro allI impI)
  fix w w'
  assume r: "same_but_telemetry w w'"
  obtain r1 w1 where m: "body w = (r1, w1)" by (cases "body w")
  obtain r1' w1' where m': "body' w' = (r1', w1')" by (cases "body' w'")
  from simD [OF assms(1) r] m m' have eq: "r1' = r1" and r1: "same_but_telemetry w1 w1'"
    by simp_all
  obtain u w2 where f: "fin w1 = (u, w2)" by (cases "fin w1")
  obtain u' w2' where f': "fin' w1' = (u', w2')" by (cases "fin' w1'")
  from simD [OF assms(2) r1] f f' have "u' = u" and "same_but_telemetry w2 w2'" by simp_all
  with m m' eq f f'
  show "fst (try_finally body fin w) = fst (try_finally body' fin' w')
      \<and> same_but_telemetry (snd (try_finally body fin w)) (snd (try_finally body' fin' w'))"
    by (cases u) (simp_all add: try_finally_def)
qed

lemma same_but_telemetry_add_path:
  "same_but_telemetry w w' \<Longrightarrow> same_but_telemetry (add_path p w) (add_path p w')"
  by (simp add: same_but_telemetry_def add_path_def)

lemma sim_makedirs: "sim (makedirs en p) (makedirs en p)"
  by (simp add: sim_def makedirs_def same_but_telemetry_add_path split: option.splits)

lemma sim_download_file: "sim (download_file en bucket key p) (download_file en bucket key p)"
  by (auto simp: sim_def download_file_def Let_def same_but_telemetry_def add_path_def
      split: option.splits)

lemma sim_imwrite: "sim (imwrite en p) (imwrite en p)"
  by (simp add: sim_def imwrite_def same_but_telemetry_add_path split: sum.splits)

lemma sim_write_file: "sim (write_file en p text) (write_file en p text)"
  by (simp add: sim_def write_file_def same_but_telemetry_add_path split: option.splits)

lemma sim_upload_file:
  "sim (upload_file en local_path bucket key content_type)
       (upload_file en local_path bucket key content_type)"
  by (simp add: sim_def upload_file_def same_but_telemetry_def split: option.splits)

lemma sim_put_events_call:
  "put_events en' ev = put_events en ev \<Longrightarrow> sim (put_events_call en' ev) (put_events_call en ev)"
  by (simp add: sim_def put_events_call_def same_but_telemetry_def)

text \<open>The two best-effort channels, when their calls raise nothing but
  \<^verbatim>\<open>Exception\<close>s: whatever the calls do, the step returns and the states differ in
  the telemetry logs only.\<close>

lemma sim_send_metrics:
  assumes "\<forall>m e. put_metric_data en' m = Some e \<longrightarrow> catchable e"
      and "\<forall>m e. put_metric_data en m = Some e \<longrightarrow> catchable e"
  shows "sim (send_metrics en' metric_name val dimensions)
             (send_metrics en metric_name val' dimensions')"
  unfolding sim_def
proof (intro allI impI)
  fix w w'
  assume r: "same_but_telemetry w w'"
  have "fst (send_metrics en' metric_name val dimensions w) = Inr ()"
    and "fst (send_metrics en metric_name val' dimensions' w') = Inr ()"
    by (rule send_metrics_returns [OF assms(1)], rule send_metrics_returns [OF assms(2)])
  moreover have "same_but_telemetry (snd (send_metrics en' metric_name val dimensions w))
                   (snd (send_metrics en metric_name val' dimensions' w'))"
    using r
    by (simp add: same_but_telemetry_def send_metrics_eq Let_def
        split: option.splits del: py_in.simps)
  ultimately show "fst (send_metrics en' metric_name val dimensions w)
        = fst (send_metrics en metric_name val' dimensions' w')
      \<and> same_but_telemetry (snd (send_metrics en' metric_name val dimensions w))
          (snd (send_metrics en metric_name val' dimensions' w'))"
    by simp
qed

lemma sim_publish_error_event:
  assumes "\<forall>ev e. is_failure_event ev \<longrightarrow> put_events en' ev = Inl e \<longrightarrow> catchable e"
      and "\<forall>ev e. is_failure_event ev \<longrightarrow> put_events en ev = Inl e \<longrightarrow> catchable e"
  shows "sim (publish_error_event en' cfg' session_id user_id error_message)
             (publish_error_event en cfg session_id user_id error_message)"
  unfolding sim_def
proof (intro allI impI)
  fix w w'
  assume r: "same_but_telemetry w w'"
  have "fst (publish_error_event en' cfg' session_id user_id error_message w) = Inr ()"
    and "fst (publish_error_event en cfg session_id user_id error_message w') = Inr ()"
    by (rule publish_error_event_returns [OF assms(1)],
        rule publish_error_event_returns [OF assms(2)])
  moreover have "same_but_telemetry
                   (snd (publish_error_event en' cfg' session_id user_id error_message w))
                   (snd (publish_error_event en cfg session_id user_id error_message w'))"
    using r by (simp add: same_but_telemetry_def publish_error_event_eq Let_def)
  ultimately show "fst (publish_error_event en' cfg' session_id user_id error_message w)
        = fst (publish_error_event en cfg session_id user_id error_message w')
      \<and> same_but_telemetry (snd (publish_error_event en' cfg' session_id user_id error_message w))
          (snd (publish_error_event en cfg session_id user_id error_message w'))"
    by simp
qed

lemma sim_cleanup_temp_files:
  "shutil_rmtree en' = shutil_rmtree en \<Longrightarrow>
     sim (cleanup_temp_files en' temp_dir) (cleanup_temp_files en temp_dir)"
  by (simp add: sim_def cleanup_temp_files_eq same_but_telemetry_def path_exists_def
      split: option.splits)

lemma sim_modify_stats:
  "sim (modify (\<lambda>w. w\<lparr>stats := f (stats w)\<rparr>)) (modify (\<lambda>w. w\<lparr>stats := f (stats w)\<rparr>))"
  by (simp add: sim_def modify_def same_but_telemetry_def)

text \<open>The stages that use neither \<^verbatim>\<open>put_events\<close> nor \<^verbatim>\<open>put_metric_data\<close> are the
  same when the environment differs in these two only.\<close>

lemma other_primitives [simp]:
  "makedirs (en\<lparr>put_events := pe, put_metric_data := pm\<rparr>) = makedirs en"
  "download_file (en\<lparr>put_events := pe, put_metric_data := pm\<rparr>) = download_file en"
  "imwrite (en\<lparr>put_events := pe, put_metric_data := pm\<rparr>) = imwrite en"
  "write_file (en\<lparr>put_events := pe, put_metric_data := pm\<rparr>) = write_file en"
  "upload_file (en\<lparr>put_events := pe, put_metric_data := pm\<rparr>) = upload_file en"
  by (simp_all add: fun_eq_iff makedirs_def download_file_def imwrite_def write_file_def
      upload_file_def)

lemma other_pure [simp]:
  "validate_image (en\<lparr>put_events := pe, put_metric_data := pm\<rparr>) = validate_image en"
  "estimate_pose_romp (en\<lparr>put_events := pe, put_metric_data := pm\<rparr>) = estimate_pose_romp en"
  "generate_text_prompt (en\<lparr>put_events := pe, put_metric_data := pm\<rparr>) = generate_text_prompt en"
  "completion_event (en\<lparr>put_events := pe, put_metric_data := pm\<rparr>) = completion_event en"
  "error_event (en\<lparr>put_events := pe, put_metric_data := pm\<rparr>) = error_event en"
  by (auto simp: fun_eq_iff validate_image_def estimate_pose_romp_def generate_text_prompt_def
      py_str_def completion_event_def error_event_def Let_def
      split: sum.splits prod.splits option.splits pyval.splits)

lemma other_fetch_model_files [simp]:
  "fetch_model_files (en\<lparr>put_events := pe, put_metric_data := pm\<rparr>) cfg files
   = fetch_model_files en cfg files"
  by (induction files) (simp_all add: Let_def cong: if_cong)

lemma other_stages [simp]:
  "load_smpl_models (en\<lparr>put_events := pe, put_metric_data := pm\<rparr>) = load_smpl_models en"
  "download_input_images (en\<lparr>put_events := pe, put_metric_data := pm\<rparr>) = download_input_images en"
  "fit_body_mesh (en\<lparr>put_events := pe, put_metric_data := pm\<rparr>) = fit_body_mesh en"
  "generate_guidance_assets (en\<lparr>put_events := pe, put_metric_data := pm\<rparr>)
   = generate_guidance_assets en"
  by (simp_all add: fun_eq_iff load_smpl_models_def download_input_images_def fit_body_mesh_def
      generate_guidance_assets_def Let_def cong: if_cong option.case_cong prod.case_cong)

lemma other_upload_items [simp]:
  "upload_items (en\<lparr>put_events := pe, put_metric_data := pm\<rparr>) cfg session_id items s3_keys
   = upload_items en cfg session_id items s3_keys"
  by (induction items arbitrary: s3_keys) (auto simp: Let_def)

lemma other_upload_guidance_assets [simp]:
  "upload_guidance_assets (en\<lparr>put_events := pe, put_metric_data := pm\<rparr>)
   = upload_guidance_assets en"
  by (simp add: fun_eq_iff upload_guidance_assets_def)

text \<open>Each stage has the same outcome from states that differ in the telemetry logs.\<close>

lemma sim_fetch_model_files: "sim (fetch_model_files en cfg files) (fetch_model_files en cfg files)"
proof (induction files)
  case Nil
  show ?case by (simp add: sim_ret)
next
  case (Cons model_file rest)
  have c: "\<And>p w w'. same_but_telemetry w w' \<Longrightarrow> (\<not> path_exists p w) = (\<not> path_exists p w')"
    by (simp add: same_but_telemetry_def path_exists_def)
  show ?case
    unfolding fetch_model_files.simps Let_def
    by (intro sim_if sim_bind sim_makedirs sim_download_file Cons.IH) (rule c)
qed

lemma sim_load_smpl_models: "sim (load_smpl_models en cfg) (load_smpl_models en cfg)"
proof -
  have c: "\<And>w w'. same_but_telemetry w w' \<Longrightarrow> (smpl_models w \<noteq> []) = (smpl_models w' \<noteq> [])"
    by (simp add: same_but_telemetry_def)
  have a: "sim (\<lambda>w. (Inr (), w) :: (exn + unit) \<times> world) (\<lambda>w. (Inr (), w))"
    by (simp add: sim_def)
  have b: "\<And>x. sim (\<lambda>w'. (Inr (), w'\<lparr>smpl_models := x\<rparr>) :: (exn + unit) \<times> world)
                    (\<lambda>w'. (Inr (), w'\<lparr>smpl_models := x\<rparr>))"
    by (simp add: sim_def same_but_telemetry_def)
  show ?thesis
    unfolding load_smpl_models_def
    by (intro sim_if sim_bind sim_fetch_model_files a b) (rule c)
qed

lemma sim_download_input_images:
  "sim (download_input_images en cfg session_id avatar_key garment_key temp_dir)
       (download_input_images en cfg session_id avatar_key garment_key temp_dir)"
  unfolding download_input_images_def Let_def
  by (intro sim_bind sim_download_file sim_lift sim_ret)

lemma sim_fit_body_mesh:
  "sim (fit_body_mesh en cfg image_path pose_results temp_dir)
       (fit_body_mesh en cfg image_path pose_results temp_dir)"
  unfolding fit_body_mesh_def
  by (intro sim_bind sim_load_smpl_models sim_ret)

lemma sim_generate_guidance_assets:
  "sim (generate_guidance_assets en avatar_path garment_path pose_results mesh_results temp_dir)
       (generate_guidance_assets en avatar_path garment_path pose_results mesh_results temp_dir)"
proof (cases "cv2_imread en avatar_path")
  case None
  then show ?thesis by (simp add: generate_guidance_assets_def sim_raise)
next
  case (Some shape)
  obtain height width where "shape = (height, width)" by (cases shape)
  with Some show ?thesis
    unfolding generate_guidance_assets_def Let_def
    by simp (intro sim_bind sim_imwrite sim_lift sim_write_file sim_ret)
qed

lemma sim_upload_items:
  "sim (upload_items en cfg session_id items s3_keys) (upload_items en cfg session_id items s3_keys)"
proof (induction items arbitrary: s3_keys)
  case Nil
  show ?case by (simp add: sim_ret)
next
  case (Cons item rest)
  obtain asset_type local_path where "item = (asset_type, local_path)" by (cases item)
  then show ?case
    by (simp add: Let_def) (intro sim_bind sim_upload_file Cons.IH)
qed

lemma sim_publish_completion_event:
  assumes "\<forall>ev. \<not> is_failure_event ev \<longrightarrow> pe ev = put_events en ev"
  shows "sim (publish_completion_event (en\<lparr>put_events := pe, put_metric_data := pm\<rparr>) cfg
                session_id user_id s3_keys mesh_results)
             (publish_completion_event en cfg session_id user_id s3_keys mesh_results)"
proof -
  have "put_events (en\<lparr>put_events := pe, put_metric_data := pm\<rparr>)
          (completion_event en cfg session_id user_id s3_keys mesh_results)
        = put_events en (completion_event en cfg session_id user_id s3_keys mesh_results)"
    using assms completion_event_not_failure by simp
  then show ?thesis
    unfolding publish_completion_event_def
    by simp (intro sim_bind sim_put_events_call, simp, simp add: sim_raise sim_ret)
qed

lemma sim_finish_success:
  assumes "\<forall>m e. pm m = Some e \<longrightarrow> catchable e"
      and "\<forall>m e. put_metric_data en m = Some e \<longrightarrow> catchable e"
  shows "sim (finish_success (en\<lparr>put_events := pe, put_metric_data := pm\<rparr>) session_id t_start
                s3_keys mesh_results)
             (finish_success en session_id t_start s3_keys mesh_results)"
proof -
  have a: "\<forall>m e. put_metric_data (en\<lparr>put_events := pe, put_metric_data := pm\<rparr>) m = Some e
             \<longrightarrow> catchable e"
    using assms(1) by simp
  show ?thesis
    unfolding finish_success_def Let_def
    by simp (intro sim_bind sim_modify_stats sim_send_metrics [OF a assms(2)] sim_ret)
qed

lemma sim_process_from_pose:
  assumes "\<forall>ev. \<not> is_failure_event ev \<longrightarrow> pe ev = put_events en ev"
      and "\<forall>m e. pm m = Some e \<longrightarrow> catchable e"
      and "\<forall>m e. put_metric_data en m = Some e \<longrightarrow> catchable e"
  shows "sim (process_from_pose (en\<lparr>put_events := pe, put_metric_data := pm\<rparr>) cfg session_id
                user_id t_start temp_dir avatar_path garment_path pose_results)
             (process_from_pose en cfg session_id user_id t_start temp_dir avatar_path garment_path
                pose_results)"
  unfolding process_from_pose_def upload_guidance_assets_def
  by simp
     (intro sim_bind sim_fit_body_mesh sim_generate_guidance_assets sim_upload_items
        sim_publish_completion_event [OF assms(1)] sim_finish_success [OF assms(2,3)])

lemma sim_process_try:
  assumes "\<forall>ev. \<not> is_failure_event ev \<longrightarrow> pe ev = put_events en ev"
      and "\<forall>m e. pm m = Some e \<longrightarrow> catchable e"
      and "\<forall>m e. put_metric_data en m = Some e \<longrightarrow> catchable e"
  shows "sim (process_try (en\<lparr>put_events := pe, put_metric_data := pm\<rparr>) cfg session_id user_id
                avatar_image_key garment_image_key t_start temp_dir)
             (process_try en cfg session_id user_id avatar_image_key garment_image_key t_start
                temp_dir)"
  unfolding process_try_def
  by simp
     (intro sim_bind sim_makedirs sim_download_input_images,
      simp add: split_def,
      intro sim_bind sim_lift sim_process_from_pose [OF assms])

lemma sim_process_except:
  assumes "\<forall>m e. pm m = Some e \<longrightarrow> catchable e"
      and "\<forall>m e. put_metric_data en m = Some e \<longrightarrow> catchable e"
      and "\<forall>ev e. is_failure_event ev \<longrightarrow> pe ev = Inl e \<longrightarrow> catchable e"
      and "\<forall>ev e. is_failure_event ev \<longrightarrow> put_events en ev = Inl e \<longrightarrow> catchable e"
  shows "sim (process_except (en\<lparr>put_events := pe, put_metric_data := pm\<rparr>) cfg session_id
                user_id e)
             (process_except en cfg session_id user_id e)"
proof -
  have a: "\<forall>m e. put_metric_data (en\<lparr>put_events := pe, put_metric_data := pm\<rparr>) m = Some e
             \<longrightarrow> catchable e"
    using assms(1) by simp
  have b: "\<forall>ev e. is_failure_event ev
             \<longrightarrow> put_events (en\<lparr>put_events := pe, put_metric_data := pm\<rparr>) ev = Inl e
             \<longrightarrow> catchable e"
    using assms(3) by simp
  show ?thesis
    unfolding process_except_def
    by (intro sim_bind sim_modify_stats sim_send_metrics [OF a assms(2)]
          sim_publish_error_event [OF b assms(4)] sim_raise)
qed

lemma sim_process_image:
  assumes "\<forall>ev. \<not> is_failure_event ev \<longrightarrow> pe ev = put_events en ev"
      and "\<forall>m e. pm m = Some e \<longrightarrow> catchable e"
      and "\<forall>m e. put_metric_data en m = Some e \<longrightarrow> catchable e"
      and "\<forall>ev e. is_failure_event ev \<longrightarrow> pe ev = Inl e \<longrightarrow> catchable e"
      and "\<forall>ev e. is_failure_event ev \<longrightarrow> put_events en ev = Inl e \<longrightarrow> catchable e"
  shows "sim (process_image (en\<lparr>put_events := pe, put_metric_data := pm\<rparr>) cfg session_id user_id
                avatar_image_key garment_image_key)
             (process_image en cfg session_id user_id avatar_image_key garment_image_key)"
  unfolding process_image_def Let_def
  by simp
     (intro sim_try_finally sim_try_except sim_process_try [OF assms(1,2,3)]
        sim_process_except [OF assms(2,3,4,5)] sim_cleanup_temp_files, simp)

text \<open>
  C7.  A transport failure is an \<^verbatim>\<open>Exception\<close>.  When the calls of the two
  best-effort channels raise nothing else, \<^verbatim>\<open>_send_metrics\<close> and
  \<^verbatim>\<open>_publish_error_event\<close> return normally whatever their transport does, and
  changing the outcome of every metric submission and of every failure-event
  publication, in any such way, changes neither what \<^verbatim>\<open>process_image\<close> returns or
  raises nor the statistics, the model cache or the file system it leaves: a failing
  session still raises the error of the stage that failed, and only that one.
\<close>

theorem telemetry_failures_leave_outcome:
  assumes "\<forall>ev. \<not> is_failure_event ev \<longrightarrow> pe ev = put_events en ev"
      and "\<forall>m e. pm m = Some e \<longrightarrow> catchable e"
      and "\<forall>m e. put_metric_data en m = Some e \<longrightarrow> catchable e"
      and "\<forall>ev e. is_failure_event ev \<longrightarrow> pe ev = Inl e \<longrightarrow> catchable e"
      and "\<forall>ev e. is_failure_event ev \<longrightarrow> put_events en ev = Inl e \<longrightarrow> catchable e"
  shows "fst (send_metrics en metric_name val dimensions w0) = Inr ()
       \<and> fst (publish_error_event en cfg session_id user_id error_message w0) = Inr ()
       \<and> fst (process_image (en\<lparr>put_events := pe, put_metric_data := pm\<rparr>) cfg session_id user_id
                avatar_image_key garment_image_key w)
         = fst (process_image en cfg session_id user_id avatar_image_key garment_image_key w)
       \<and> stats (snd (process_image (en\<lparr>put_events := pe, put_metric_data := pm\<rparr>) cfg session_id
                user_id avatar_image_key garment_image_key w))
         = stats (snd (process_image en cfg session_id user_id avatar_image_key garment_image_key w))
       \<and> smpl_models (snd (process_image (en\<lparr>put_events := pe, put_metric_data := pm\<rparr>) cfg
                session_id user_id avatar_image_key garment_image_key w))
         = smpl_models (snd (process_image en cfg session_id user_id avatar_image_key
                garment_image_key w))
       \<and> fs (snd (process_image (en\<lparr>put_events := pe, put_metric_data := pm\<rparr>) cfg session_id
                user_id avatar_image_key garment_image_key w))
         = fs (snd (process_image en cfg session_id user_id avatar_image_key garment_image_key w))"
proof -
  have "same_but_telemetry w w" by (simp add: same_but_telemetry_def)
  from simD [OF sim_process_image [OF assms] this]
  have "fst (process_image (en\<lparr>put_events := pe, put_metric_data := pm\<rparr>) cfg session_id user_id
                avatar_image_key garment_image_key w)
         = fst (process_image en cfg session_id user_id avatar_image_key garment_image_key w)"
    and "same_but_telemetry
           (snd (process_image (en\<lparr>put_events := pe, put_metric_data := pm\<rparr>) cfg session_id
                user_id avatar_image_key garment_image_key w))
           (snd (process_image en cfg session_id user_id avatar_image_key garment_image_key w))"
    by blast+
  then show ?thesis
    by (simp add: same_but_telemetry_def send_metrics_returns [OF assms(3)]
        publish_error_event_returns [OF assms(5)])
qed

text \<open>The object store is down; against an environment whose metrics sink and event bus
  work, one in which every metric submission and every failure-event publication raises
  a connection error.\<close>

theorem telemetry_failures_leave_outcome_witness:
  "(\<forall>ev. is_failure_event ev
         \<or> (\<lambda>ev. if is_failure_event ev then Inl conn_error else put_events no_s3_env ev) ev
           = put_events no_s3_env ev)
   \<and> catchable conn_error
   \<and> (\<forall>m. put_metric_data no_s3_env m = None)
   \<and> (\<forall>ev. put_events no_s3_env ev = Inr 0)
   \<and> fst (process_image
        (no_s3_env\<lparr>put_events := (\<lambda>ev. if is_failure_event ev then Inl conn_error
                                        else put_events no_s3_env ev),
                   put_metric_data := (\<lambda>m. Some conn_error)\<rparr>)
        default_config ''S1'' ''U1'' ''avatars/a.jpg'' ''garments/g.jpg'' (init_world 0))
     = Inl conn_error
   \<and> stats (snd (process_image
        (no_s3_env\<lparr>put_events := (\<lambda>ev. if is_failure_event ev then Inl conn_error
                                        else put_events no_s3_env ev),
                   put_metric_data := (\<lambda>m. Some conn_error)\<rparr>)
        default_config ''S1'' ''U1'' ''avatars/a.jpg'' ''garments/g.jpg'' (init_world 0)))
     = \<lparr>processed_count = 0, error_count = 1, start_time = 0, last_activity = 0\<rparr>"
proof -
  let ?pe = "\<lambda>ev. if is_failure_event ev then Inl conn_error else put_events no_s3_env ev"
  let ?en' = "no_s3_env\<lparr>put_events := ?pe, put_metric_data := (\<lambda>m. Some conn_error)\<rparr>"
  let ?run = "process_image no_s3_env default_config ''S1'' ''U1'' ''avatars/a.jpg''
                ''garments/g.jpg'' (init_world 0)"
  let ?run' = "process_image ?en' default_config ''S1'' ''U1'' ''avatars/a.jpg''
                ''garments/g.jpg'' (init_world 0)"
  have c: "catchable conn_error" by (rule conn_error_catchable)
  have h1: "\<forall>ev. \<not> is_failure_event ev \<longrightarrow> ?pe ev = put_events no_s3_env ev" by simp
  have h2: "\<forall>m e. (\<lambda>m. Some conn_error) m = Some e \<longrightarrow> catchable e" using c by simp
  have h3: "\<forall>m e. put_metric_data no_s3_env m = Some e \<longrightarrow> catchable e"
    by (simp add: no_s3_env_calls)
  have h4: "\<forall>ev e. is_failure_event ev \<longrightarrow> ?pe ev = Inl e \<longrightarrow> catchable e" using c by simp
  have h5: "\<forall>ev e. is_failure_event ev \<longrightarrow> put_events no_s3_env ev = Inl e \<longrightarrow> catchable e"
    by (simp add: no_s3_env_calls)
  have f: "fst ?run = Inl conn_error"
    by (rule process_image_download_fails_fields(1))
       (simp_all add: no_s3_env_calls conn_error_catchable)
  have "stats (snd ?run)
      = (stats (init_world 0))\<lparr>error_count := error_count (stats (init_world 0)) + 1\<rparr>"
    by (rule process_image_download_fails_fields(2) [where e = conn_error])
       (simp_all add: no_s3_env_calls conn_error_catchable)
  also have "\<dots> = \<lparr>processed_count = 0, error_count = 1, start_time = 0, last_activity = 0\<rparr>"
    by (simp add: init_world_def)
  finally have s: "stats (snd ?run)
      = \<lparr>processed_count = 0, error_count = 1, start_time = 0, last_activity = 0\<rparr>" .
  note t = telemetry_failures_leave_outcome [OF h1 h2 h3 h4 h5,
      where cfg = default_config and session_id = "''S1''" and user_id = "''U1''"
      and avatar_image_key = "''avatars/a.jpg''" and garment_image_key = "''garments/g.jpg''"
      and w = "init_world 0"]
  from t have "fst ?run' = fst ?run" by blast
  with f have f': "fst ?run' = Inl conn_error" by simp
  from t have "stats (snd ?run') = stats (snd ?run)" by blast
  with s have s': "stats (snd ?run')
      = \<lparr>processed_count = 0, error_count = 1, start_time = 0, last_activity = 0\<rparr>"
    by simp
  have a: "\<forall>ev. is_failure_event ev \<or> ?pe ev = put_events no_s3_env ev" by simp
  have m: "\<forall>m. put_metric_data no_s3_env m = None" by (simp add: no_s3_env_calls)
  have p: "\<forall>ev. put_events no_s3_env ev = Inr 0" by (simp add: no_s3_env_calls)
  from a c m p f' s' show ?thesis by (intro conjI)
qed

end
